theory Spec2Isabelle
  imports Main "HOL-Library.Sublist"
begin

section \<open>Scoring enumerations (models/evaluation.py)\<close>

text \<open>
  \<^verbatim>\<open>ScoreLevel\<close> and \<^verbatim>\<open>Severity\<close> are \<^verbatim>\<open>IntEnum\<close> classes: a closed set of
  members, each carrying an integer, and compared as that integer. The members are the
  constructors of a datatype, in the order the source declares them; the integer of a
  member is given by a function.
\<close>

datatype ScoreLevel = FAILING | POOR | NEEDS_WORK | GOOD | EXCELLENT

fun ScoreLevel_value :: "ScoreLevel \<Rightarrow> int" where
  "ScoreLevel_value FAILING = 0"
| "ScoreLevel_value POOR = 25"
| "ScoreLevel_value NEEDS_WORK = 50"
| "ScoreLevel_value GOOD = 75"
| "ScoreLevel_value EXCELLENT = 100"

datatype Severity = LOW | MEDIUM | HIGH | CRITICAL

fun Severity_value :: "Severity \<Rightarrow> int" where
  "Severity_value LOW = 1"
| "Severity_value MEDIUM = 2"
| "Severity_value HIGH = 3"
| "Severity_value CRITICAL = 4"

text \<open>The members in declaration order (what iterating over the enum class yields).\<close>

definition ScoreLevel_members :: "ScoreLevel list" where
  "ScoreLevel_members = [FAILING, POOR, NEEDS_WORK, GOOD, EXCELLENT]"

definition Severity_members :: "Severity list" where
  "Severity_members = [LOW, MEDIUM, HIGH, CRITICAL]"

text \<open>Comparison of two members is comparison of their integers.\<close>

definition ScoreLevel_less :: "ScoreLevel \<Rightarrow> ScoreLevel \<Rightarrow> bool" where
  "ScoreLevel_less a b = (ScoreLevel_value a < ScoreLevel_value b)"

definition Severity_less :: "Severity \<Rightarrow> Severity \<Rightarrow> bool" where
  "Severity_less a b = (Severity_value a < Severity_value b)"


section \<open>Validation errors\<close>

text \<open>
  Both the records of the data model and the argument schemas of the tools are pydantic
  models. Validation checks each field against its declared constraint and raises a
  \<^verbatim>\<open>ValidationError\<close> listing every field that failed; otherwise the value is
  accepted. Values are taken at their declared types (an \<^verbatim>\<open>int\<close> is an
  \<^typ>\<open>int\<close>, a \<^verbatim>\<open>str\<close> a \<^typ>\<open>string\<close>, \<^verbatim>\<open>X | None\<close> an option), so a
  constraint that can fail is a bound on a number or the closed value set of a
  \<^verbatim>\<open>Literal\<close>. A failure is the list of the errors (\<open>Inl\<close>), an accepted value is
  \<open>Inr\<close>.
\<close>

datatype error_type = greater_than_equal | less_than_equal | literal_error

type_synonym validation_error = "string \<times> error_type"

definition check_literal :: "string \<Rightarrow> string list \<Rightarrow> string \<Rightarrow> validation_error list" where
  "check_literal field allowed v = (if v \<in> set allowed then [] else [(field, literal_error)])"

definition validated :: "validation_error list \<Rightarrow> 'a \<Rightarrow> validation_error list + 'a" where
  "validated errs r = (if errs = [] then Inr r else Inl errs)"


section \<open>Values of the template operations (tools/*.py)\<close>

text \<open>
  A Python \<^verbatim>\<open>str\<close> is a \<^typ>\<open>string\<close>: the characters of its UTF-8 encoding. The
  templates are ASCII except for a few box-drawing glyphs, a bullet and an arrow, which
  are written as their three UTF-8 bytes. One string occurs inside another in Python
  exactly when its encoding occurs inside the other's, which is \<^const>\<open>sublist\<close>.

  Every operation ends in \<^verbatim>\<open>return json.dumps({...})\<close>: it builds a dictionary and
  serialises it as one JSON object. The model returns that object, as the list of its
  members in the order the dictionary literal gives them. \<^verbatim>\<open>None\<close> becomes
  \<^verbatim>\<open>null\<close>, a \<^verbatim>\<open>bool\<close> a JSON boolean, a \<^verbatim>\<open>str\<close> a JSON string and a
  \<^verbatim>\<open>list[str]\<close> an array of strings.
\<close>

datatype json = JNull | JBool bool | JString string | JArray "json list"

type_synonym envelope = "(string \<times> json) list"

definition json_str_opt :: "string option \<Rightarrow> json" where
  "json_str_opt x = (case x of None \<Rightarrow> JNull | Some s \<Rightarrow> JString s)"

definition json_list :: "string list \<Rightarrow> json" where
  "json_list xs = JArray (map JString xs)"

definition json_list_opt :: "string list option \<Rightarrow> json" where
  "json_list_opt x = (case x of None \<Rightarrow> JNull | Some xs \<Rightarrow> json_list xs)"

text \<open>
  A parameter with a default other than \<^verbatim>\<open>None\<close> is an option in the model:
  \<open>None\<close> stands for a call that leaves the argument out, and the body sees the default.
  A parameter declared \<^verbatim>\<open>X | None = None\<close> is an option whose \<open>None\<close> is Python's.
\<close>

definition arg_or_default :: "'a \<Rightarrow> 'a option \<Rightarrow> 'a" where
  "arg_or_default d a = (case a of None \<Rightarrow> d | Some v \<Rightarrow> v)"


subsection \<open>Python's truth values and string formatting\<close>

text \<open>\<^verbatim>\<open>if x\<close> on an optional string or list: \<^verbatim>\<open>None\<close> and the empty value are false.\<close>

fun str_truthy :: "string option \<Rightarrow> bool" where
  "str_truthy None = False"
| "str_truthy (Some s) = (s \<noteq> [])"

fun list_truthy :: "string list option \<Rightarrow> bool" where
  "list_truthy None = False"
| "list_truthy (Some xs) = (xs \<noteq> [])"

text \<open>\<^verbatim>\<open>x or d\<close> on an optional string.\<close>

fun py_or :: "string option \<Rightarrow> string \<Rightarrow> string" where
  "py_or None d = d"
| "py_or (Some s) d = (if s = [] then d else s)"

text \<open>\<^verbatim>\<open>d.get(k, default)\<close> on a dictionary literal.\<close>

definition dict_get :: "('k \<times> 'v) list \<Rightarrow> 'k \<Rightarrow> 'v \<Rightarrow> 'v" where
  "dict_get d k dflt = (case map_of d k of None \<Rightarrow> dflt | Some v \<Rightarrow> v)"

text \<open>
  \<^verbatim>\<open>repr\<close> of a string works on its characters (code points), so the bytes are
  decoded first: a lead byte and the continuation bytes that follow it are one
  character. A byte that starts no well-formed sequence is taken as a character of its
  own (no Python string has such an encoding). A lone surrogate, which a Python string
  can hold, is read from the same three-byte pattern as its neighbours.
\<close>

definition is_continuation :: "char \<Rightarrow> bool" where
  "is_continuation c = (0x80 \<le> (of_char c :: nat) \<and> (of_char c :: nat) < 0xC0)"

text \<open>How many continuation bytes belong to the lead byte \<open>b\<close> that is followed by \<open>bs\<close>.\<close>

definition continuation_count :: "char \<Rightarrow> string \<Rightarrow> nat" where
  "continuation_count b bs =
     (let n = (of_char b :: nat);
          k = (if 0xC0 \<le> n \<and> n < 0xE0 then 1
               else if 0xE0 \<le> n \<and> n < 0xF0 then 2
               else if 0xF0 \<le> n \<and> n < 0xF8 then 3
               else 0)
      in if k \<le> length bs \<and> list_all is_continuation (take k bs) then k else 0)"

text \<open>The code point of a lead byte with its continuation bytes \<open>cs\<close>.\<close>

definition code_point :: "char \<Rightarrow> string \<Rightarrow> nat" where
  "code_point b cs =
     (let n = (of_char b :: nat);
          lead = (case length cs of
                    0 \<Rightarrow> n
                  | Suc 0 \<Rightarrow> n mod 32
                  | Suc (Suc 0) \<Rightarrow> n mod 16
                  | _ \<Rightarrow> n mod 8)
      in foldl (\<lambda>acc c. acc * 64 + (of_char c :: nat) mod 64) lead cs)"

text \<open>The characters of a string: each code point with the bytes that encode it.\<close>

function code_points :: "string \<Rightarrow> (nat \<times> string) list" where
  "code_points [] = []"
| "code_points (b # bs) =
     (code_point b (take (continuation_count b bs) bs), b # take (continuation_count b bs) bs)
     # code_points (drop (continuation_count b bs) bs)"
  by pat_completeness auto
termination
  by (relation "measure length") auto

text \<open>
  \<^verbatim>\<open>repr\<close> of a string: quoted with \<^verbatim>\<open>'\<close>, or with \<^verbatim>\<open>"\<close> when the string holds a
  \<^verbatim>\<open>'\<close> and no \<^verbatim>\<open>"\<close>. In ASCII, the quote and the backslash are escaped, tab,
  newline and carriage return are written \<^verbatim>\<open>\t\<close>, \<^verbatim>\<open>\n\<close>, \<^verbatim>\<open>\r\<close>, the other
  control characters \<^verbatim>\<open>\xhh\<close>, and the rest is copied. A character beyond ASCII is
  copied when Python's Unicode table classes it as printable, and otherwise written
  \<^verbatim>\<open>\xhh\<close>, \<^verbatim>\<open>\uhhhh\<close> or \<^verbatim>\<open>\Uhhhhhhhh\<close> by its size. That table belongs to the
  interpreter, not to the program: it is the parameter \<open>isprintable\<close>, a predicate on
  code points, of \<open>py_repr\<close> and of everything that renders a list.
\<close>

definition hex_digit :: "nat \<Rightarrow> char" where
  "hex_digit n = ''0123456789abcdef'' ! (n mod 16)"

text \<open>The last \<open>k\<close> hexadecimal digits of \<open>v\<close>.\<close>

fun hex_digits :: "nat \<Rightarrow> nat \<Rightarrow> string" where
  "hex_digits 0 v = []"
| "hex_digits (Suc k) v = hex_digits k (v div 16) @ [hex_digit v]"

definition repr_char :: "char \<Rightarrow> char \<Rightarrow> string" where
  "repr_char quote c =
     (if c = quote \<or> c = CHR 0x5C then [CHR 0x5C, c]
      else if c = CHR 0x09 then [CHR 0x5C, CHR ''t'']
      else if c = CHR 0x0A then [CHR 0x5C, CHR ''n'']
      else if c = CHR 0x0D then [CHR 0x5C, CHR ''r'']
      else if (of_char c :: nat) < 0x20 \<or> c = CHR 0x7F
        then [CHR 0x5C, CHR ''x'', hex_digit (of_char c div 16), hex_digit (of_char c mod 16)]
      else [c])"

definition repr_code_point :: "(nat \<Rightarrow> bool) \<Rightarrow> char \<Rightarrow> nat \<times> string \<Rightarrow> string" where
  "repr_code_point isprintable quote cb =
     (let cp = fst cb; bytes = snd cb
      in if cp < 0x80 then concat (map (repr_char quote) bytes)
         else if isprintable cp then bytes
         else if cp \<le> 0xFF then [CHR 0x5C, CHR ''x''] @ hex_digits 2 cp
         else if cp \<le> 0xFFFF then [CHR 0x5C, CHR ''u''] @ hex_digits 4 cp
         else [CHR 0x5C, CHR ''U''] @ hex_digits 8 cp)"

definition py_repr :: "(nat \<Rightarrow> bool) \<Rightarrow> string \<Rightarrow> string" where
  "py_repr isprintable s =
     (let quote = (if CHR 0x27 \<in> set s \<and> CHR 0x22 \<notin> set s then CHR 0x22 else CHR 0x27)
      in [quote] @ concat (map (repr_code_point isprintable quote) (code_points s)) @ [quote])"

text \<open>\<^verbatim>\<open>sep.join(xs)\<close>\<close>

fun join :: "string \<Rightarrow> string list \<Rightarrow> string" where
  "join sep [] = []"
| "join sep [x] = x"
| "join sep (x # y # ys) = x @ sep @ join sep (y # ys)"

text \<open>\<^verbatim>\<open>str\<close> of a list of strings, which is what an f-string writes for it.\<close>

definition py_str_list :: "(nat \<Rightarrow> bool) \<Rightarrow> string list \<Rightarrow> string" where
  "py_str_list isprintable xs = ''['' @ join '', '' (map (py_repr isprintable) xs) @ '']''"

text \<open>\<^verbatim>\<open>str\<close> of an optional value, as an f-string writes it.\<close>

fun format_str :: "string option \<Rightarrow> string" where
  "format_str None = ''None''"
| "format_str (Some s) = s"

fun format_list :: "(nat \<Rightarrow> bool) \<Rightarrow> string list option \<Rightarrow> string" where
  "format_list isprintable None = ''None''"
| "format_list isprintable (Some xs) = py_str_list isprintable xs"


subsection \<open>Glyphs beyond ASCII in the templates\<close>

definition box_h :: string where "box_h = [CHR 0xE2, CHR 0x94, CHR 0x80]"
definition box_v :: string where "box_v = [CHR 0xE2, CHR 0x94, CHR 0x82]"
definition box_dr :: string where "box_dr = [CHR 0xE2, CHR 0x94, CHR 0x8C]"
definition box_dl :: string where "box_dl = [CHR 0xE2, CHR 0x94, CHR 0x90]"
definition box_ur :: string where "box_ur = [CHR 0xE2, CHR 0x94, CHR 0x94]"
definition box_ul :: string where "box_ul = [CHR 0xE2, CHR 0x94, CHR 0x98]"
definition box_vr :: string where "box_vr = [CHR 0xE2, CHR 0x94, CHR 0x9C]"
definition box_vl :: string where "box_vl = [CHR 0xE2, CHR 0x94, CHR 0xA4]"
definition box_dh :: string where "box_dh = [CHR 0xE2, CHR 0x94, CHR 0xAC]"
definition box_uh :: string where "box_uh = [CHR 0xE2, CHR 0x94, CHR 0xB4]"
definition box_vh :: string where "box_vh = [CHR 0xE2, CHR 0x94, CHR 0xBC]"
definition bullet :: string where "bullet = [CHR 0xE2, CHR 0x80, CHR 0xA2]"
definition rightarrow :: string where "rightarrow = [CHR 0xE2, CHR 0x86, CHR 0x92]"

definition rep :: "nat \<Rightarrow> string \<Rightarrow> string" where
  "rep n s = concat (replicate n s)"


section \<open>The template operations\<close>

text \<open>
  Each operation is a function under the \<^verbatim>\<open>@tool\<close> decorator. The decorator makes a
  tool of the function: invoking the tool first validates the arguments against the
  schema of the function's signature and then calls the function. The definitions of
  this section are the functions the tools wrap, under their names: what a tool returns
  once its arguments have passed the schema. A function does not check the
  \<^verbatim>\<open>Literal\<close> annotations of its parameters itself, so it is defined on every string.
  The schemas and the invocation of a tool follow in the subsection on calls.

  The instruction text is a definition of its own, so that the text can be compared with
  the source line by line; an f-string is the concatenation of its literal pieces and its
  formatted expressions.
\<close>

subsection \<open>tools/evaluation.py\<close>

definition run_five_second_test_instructions :: string where
\<open>run_five_second_test_instructions =
   ''Analyze this asset and answer:

1. **What do they do?** (clear/partial/unclear)
   - Can you tell what the product/service is within 5 seconds?
   - Quote the text that tells you (or note its absence)

2. **Who is it for?** (clear/partial/unclear)
   - Is the target audience specific or generic?
   - Quote any persona/audience indicators

3. **What makes it different?** (clear/partial/unclear)
   - Is there a unique value proposition?
   - What's the competitive alternative?

4. **What to do next?** (clear/partial/unclear)
   - Is there a clear call-to-action?
   - Is there only ONE primary action?

**Final verdict:** PASS (3-4 clear), PARTIAL (1-2 clear), FAIL (0 clear)

Provide specific evidence for each answer.''\<close>

definition run_five_second_test :: "string \<Rightarrow> string option \<Rightarrow> envelope" where
\<open>run_five_second_test asset_content asset_type =
   [(''task'', JString ''five_second_test''),
    (''instructions'', JString (run_five_second_test_instructions)),
    (''asset_content'', JString asset_content),
    (''asset_type'', JString (arg_or_default ''homepage'' asset_type))]\<close>

definition analyze_positioning_instructions :: string where
\<open>analyze_positioning_instructions =
   ''Analyze positioning using the Positioning Canvas:

## 1. TARGET CUSTOMER
- Role/Title: (identified or missing?)
- Company Type: (B2B, B2C, size, stage?)
- Industry: (specific or "everyone"?)
- Situation/Trigger: (what makes them buy now?)
- **Specificity Score (0-100):** How narrow is the targeting?

## 2. COMPETITIVE ALTERNATIVE
- Type: (direct competitor / manual process / status quo / homegrown)
- Named Alternative: (explicit or implied?)
- Is there a "unlike X" or "instead of Y"?
- **Frame Score (0-100):** How clear is what they replace?

## 3. DIFFERENTIATION
- Unique Approach: (what do they do differently?)
- Key Capability: (what can they do that others can't?)
- Is it defensible? (hard to copy)
- Is it meaningful? (customers care)
- Could competitor say the same thing?
- **Differentiation Score (0-100)**

## 4. PROBLEM/PAIN
- Is there a specific problem stated?
- Is it the customer's problem or the company's narrative?
- Is it specific or generic ("increase revenue")?
- **Problem Clarity Score (0-100)**

## ANTI-PATTERNS DETECTED
- [ ] Refusing to Pigeonhole (serving everyone)
- [ ] Positioning on Outcomes Only (grow revenue)
- [ ] Platform Before Point Solution
- [ ] No Competitive Frame

## OVERALL POSITIONING SCORE (0-100)
- Weighted average of components
- List top 3 strengths
- List top 3 weaknesses''\<close>

definition analyze_positioning :: "string \<Rightarrow> string option \<Rightarrow> envelope" where
\<open>analyze_positioning asset_content company_context =
   [(''task'', JString ''positioning_analysis''),
    (''instructions'', JString (analyze_positioning_instructions)),
    (''asset_content'', JString asset_content),
    (''company_context'', json_str_opt company_context)]\<close>

definition analyze_messaging_instructions :: string where
\<open>analyze_messaging_instructions =
   ''Analyze messaging using the 5-layer hierarchy:

## LAYER 1: POSITIONING STATEMENT
- Can you infer: "For [target] who [situation], [product] is a [category] that [benefit]. Unlike [alternative], we [differentiator]"?
- Score (0-100):

## LAYER 2: VALUE PROPOSITION
- Is there a clear value prop in the hero?
- Components present: Capability / Audience / Benefit / Differentiator
- Quote the value proposition if present
- Score (0-100):

## LAYER 3: KEY MESSAGES (Pillars)
- How many key messages/pillars?
- Are they benefit-oriented or feature lists?
- Quote each pillar
- Score (0-100):

## LAYER 4: PROOF POINTS
- Customer quotes present?
- Metrics/results with numbers?
- Logos present?
- Awards/recognition?
- Score (0-100):

## LAYER 5: MICRO-COPY
- CTA button text (benefit-oriented?)
- Headlines (clear or clever?)
- Consistent terminology?
- Score (0-100):

## MESSAGING HOUSE ASSESSMENT
```
Value Prop: [quote]
''
   @ box_vr
   @ rep 2 box_h
   @ '' Pillar 1: [quote]
''
   @ box_vr
   @ rep 2 box_h
   @ '' Pillar 2: [quote]
''
   @ box_vr
   @ rep 2 box_h
   @ '' Pillar 3: [quote]
''
   @ box_ur
   @ rep 2 box_h
   @ '' Foundation: [target audience]
```

## CLARITY TESTS
- **5-Second Clarity (0-100):** Immediate understanding?
- **Specificity (0-100):** Numbers, metrics, concrete outcomes?
- **Benefit-Orientation (0-100):** Features ''
   @ rightarrow
   @ '' benefits?

## ANTI-PATTERNS DETECTED
- [ ] Feature Dumping
- [ ] Jargon/Buzzwords (list them)
- [ ] Clever Over Clear
- [ ] Saying Everything
- [ ] No Specificity

## OVERALL MESSAGING SCORE (0-100)''\<close>

definition analyze_messaging :: "string \<Rightarrow> string option \<Rightarrow> envelope" where
\<open>analyze_messaging asset_content target_persona =
   [(''task'', JString ''messaging_analysis''),
    (''instructions'', JString (analyze_messaging_instructions)),
    (''asset_content'', JString asset_content),
    (''target_persona'', json_str_opt target_persona)]\<close>

definition analyze_homepage_structure_instructions :: string where
\<open>analyze_homepage_structure_instructions =
   ''Analyze homepage structure:

## HERO SECTION
- **Headline:** Quote it. Is it clear or clever?
- **Subheadline:** Does it support or repeat?
- **Primary CTA:** Text and placement
- **Social Proof in Hero:** Logos visible?
- **Headline Clarity Score (0-100)**
- **CTA Clarity Score (0-100)**

## INFORMATION HIERARCHY
- What's above the fold?
- Is most important info first?
- Is the page scannable?
- Score (0-100):

## CTA STRATEGY
- Count of CTAs above fold:
- Primary CTA obvious? (yes/no)
- Secondary path for not-ready visitors?
- **Too many CTAs?** (>3 = problem)

## SOCIAL PROOF
- Logos present? Recognizable?
- Testimonials present? Names/titles included?
- Metrics present? Specific results?
- Score (0-100):

## ANTI-PATTERNS DETECTED
- [ ] Unclear Hero
- [ ] Too Many CTAs
- [ ] Missing Social Proof
- [ ] Wall of Text
- [ ] Stock Photos

## SECTION-BY-SECTION BREAKDOWN
List each section with:
- Purpose
- Effectiveness (0-100)
- Issues

## OVERALL HOMEPAGE SCORE (0-100)''\<close>

definition analyze_homepage_structure :: "string \<Rightarrow> bool option \<Rightarrow> envelope" where
\<open>analyze_homepage_structure asset_content include_screenshots =
   [(''task'', JString ''homepage_structure_analysis''),
    (''instructions'', JString (analyze_homepage_structure_instructions)),
    (''asset_content'', JString asset_content),
    (''include_screenshots'', JBool (arg_or_default False include_screenshots))]\<close>

definition detect_anti_patterns_instructions :: string where
\<open>detect_anti_patterns_instructions =
   ''Scan for PMM anti-patterns:

## CRITICAL (Must Fix Immediately)

### 1. Refusing to Pigeonhole
- [ ] DETECTED? Evidence:
- Specific text:
- Impact:
- Fix:

### 2. Positioning on Outcomes Only
- [ ] DETECTED? Evidence:
- Specific text:
- Impact:
- Fix:

### 3. No Competitive Frame
- [ ] DETECTED? Evidence:
- Missing elements:
- Fix:

### 4. Unclear Hero (if homepage)
- [ ] DETECTED? Evidence:
- Specific text:
- Fix:

## HIGH PRIORITY (Should Fix)

### 5. Feature Dumping
- [ ] DETECTED?
- Feature list without benefits:
- Fix: "So what?" translation

### 6. Jargon/Buzzwords
- [ ] DETECTED?
- List all buzzwords found:
- Plain English alternatives:

### 7. Clever Over Clear
- [ ] DETECTED?
- Clever phrase:
- Clear alternative:

### 8. Too Many CTAs (if homepage)
- [ ] DETECTED?
- Count:
- Primary should be:

### 9. Missing Social Proof
- [ ] DETECTED?
- What's missing:
- Recommendation:

### 10. No Specificity
- [ ] DETECTED?
- Generic claims:
- Specific alternatives:

## MEDIUM PRIORITY

### 11. Platform Before Point Solution
- [ ] DETECTED?

### 12. Saying Everything
- [ ] DETECTED?
- Count of use cases/features:

### 13. Too Broad ICP
- [ ] DETECTED?

### 14. Wall of Text
- [ ] DETECTED?

## SUMMARY
- Critical issues: [count]
- High priority: [count]
- Medium: [count]
- Top 3 to fix first:''\<close>

definition detect_anti_patterns :: "string \<Rightarrow> string option \<Rightarrow> envelope" where
\<open>detect_anti_patterns asset_content asset_type =
   [(''task'', JString ''anti_pattern_detection''),
    (''instructions'', JString (detect_anti_patterns_instructions)),
    (''asset_content'', JString asset_content),
    (''asset_type'', JString (arg_or_default ''all'' asset_type))]\<close>

text \<open>The values the annotation of \<^verbatim>\<open>issue_type\<close> enumerates.\<close>

definition ISSUE_TYPES :: "string list" where
  "ISSUE_TYPES =
     [''unclear_headline'', ''jargon_buzzwords'', ''feature_dump'', ''no_specificity'',
      ''clever_over_clear'', ''weak_cta'', ''generic_value_prop'', ''no_competitive_frame'']"

text \<open>The dictionary the body of \<^verbatim>\<open>generate_rewrite\<close> builds before it formats.\<close>

definition rewrite_instructions :: "(string \<times> string) list" where
\<open>rewrite_instructions =
   [(''unclear_headline'', ''Rewrite to clearly state WHAT + WHO. No cleverness.''),
    (''jargon_buzzwords'', ''Replace all jargon with customer language. Be specific.''),
    (''feature_dump'', ''Apply 'So what?' to each feature until you reach benefit.''),
    (''no_specificity'', ''Add numbers, timeframes, concrete outcomes.''),
    (''clever_over_clear'', ''Make it boring and clear. State exactly what it does.''),
    (''weak_cta'', ''Make CTA benefit-oriented. What happens when they click?''),
    (''generic_value_prop'', ''Add problem + specific solution + for whom.''),
    (''no_competitive_frame'', ''Add 'Unlike X' or 'Instead of Y' framing.'')]\<close>

definition generate_rewrite_instructions :: "string \<Rightarrow> string \<Rightarrow> string option \<Rightarrow> string option \<Rightarrow> string" where
\<open>generate_rewrite_instructions original_copy issue_type target_persona competitive_alternative =
   ''Rewrite this copy to fix: ''
   @ issue_type
   @ ''

**Original:**
''
   @ original_copy
   @ ''

**Issue:** ''
   @ issue_type
   @ ''
**Fix approach:** ''
   @ dict_get rewrite_instructions issue_type ''Improve clarity and specificity''
   @ ''

**Target persona:** ''
   @ py_or target_persona ''Not specified''
   @ ''
**Competitive alternative:** ''
   @ py_or competitive_alternative ''Not specified''
   @ ''

Provide:
1. **Analysis:** Why the original fails
2. **Rewrite Option 1:** Conservative improvement
3. **Rewrite Option 2:** Bold improvement
4. **Rewrite Option 3:** If persona specified, persona-specific version
5. **Why these work:** Explanation of improvements''\<close>

definition generate_rewrite :: "string \<Rightarrow> string \<Rightarrow> string option \<Rightarrow> string option \<Rightarrow> envelope" where
\<open>generate_rewrite original_copy issue_type target_persona competitive_alternative =
   [(''task'', JString ''copy_rewrite''),
    (''instructions'', JString (generate_rewrite_instructions original_copy issue_type target_persona competitive_alternative)),
    (''original_copy'', JString original_copy),
    (''issue_type'', JString issue_type)]\<close>

definition build_competitive_frame_instructions :: string where
\<open>build_competitive_frame_instructions =
   ''Build competitive frame:

## COMPETITIVE ALTERNATIVES ANALYSIS

### Option 1: Direct Competitor
- Who is the most obvious competitor?
- What's their weakness?
- Frame: "Unlike [competitor], we..."

### Option 2: Manual Process
- What do people do without this product?
- What's painful about it?
- Frame: "Instead of [manual process], you can..."

### Option 3: Status Quo
- What happens if they do nothing?
- What's the cost of inaction?
- Frame: "Stop [painful status quo]. Start..."

### Option 4: Homegrown Solution
- Do teams build this internally?
- Why does that fail?
- Frame: "Replace your [homegrown solution] with..."

## RECOMMENDED FRAME
- Primary alternative:
- Why this frame:
- Positioning statement using this frame:

## DIFFERENTIATION STATEMENTS
Generate 3 "Unlike X, we Y" statements:
1.
2.
3.

## VALIDATION QUESTIONS
To validate this frame, ask customers:
1.
2.
3.''\<close>

definition build_competitive_frame :: "string \<Rightarrow> string list option \<Rightarrow> string option \<Rightarrow> envelope" where
\<open>build_competitive_frame product_description known_competitors current_positioning =
   [(''task'', JString ''competitive_frame_building''),
    (''instructions'', JString (build_competitive_frame_instructions)),
    (''product_description'', JString product_description),
    (''known_competitors'', json_list_opt known_competitors),
    (''current_positioning'', json_str_opt current_positioning)]\<close>

definition analyze_icp_instructions :: string where
\<open>analyze_icp_instructions =
   ''Analyze ICP definition:

## FIRMOGRAPHICS IDENTIFIED
- Company Size: (specific or "all sizes"?)
- Industry: (specific or "any industry"?)
- Geography: (specific or global?)
- Tech Stack: (mentioned or not?)
- Specificity Score (0-100):

## SITUATION/TRIGGER
- What triggers the buy? (identified or missing?)
- Is there urgency? (why now?)
- Score (0-100):

## PAIN POINTS
- Specific pain identified?
- Cost of not solving?
- Score (0-100):

## PERSONA CLARITY
- Role/title specific?
- Buyer vs. user distinction?
- How many personas implied?
- Score (0-100):

## ANTI-PATTERNS
- [ ] Too Broad ICP
- [ ] Aspirational ICP (dream vs. actual customers)
- [ ] Demographic-Only (no situation/trigger)
- [ ] Too Many Personas

## INFERRED ICP
Based on the asset, the implied ICP is:
- Role:
- Company:
- Situation:
- Pain:

## RECOMMENDATIONS
- Is this specific enough to execute?
- What should be narrowed?
- What's missing?

## ICP CLARITY SCORE (0-100)''\<close>

definition analyze_icp :: "string \<Rightarrow> string option \<Rightarrow> envelope" where
\<open>analyze_icp asset_content additional_context =
   [(''task'', JString ''icp_analysis''),
    (''instructions'', JString (analyze_icp_instructions)),
    (''asset_content'', JString asset_content),
    (''additional_context'', json_str_opt additional_context)]\<close>

definition run_complete_pmm_audit_instructions :: string where
\<open>run_complete_pmm_audit_instructions =
   ''Run complete PMM audit:

# PMM AUDIT REPORT

## EXECUTIVE SUMMARY
(2-3 sentences on overall state)

## 1. 5-SECOND TEST
- What they do: clear/partial/unclear
- Who it's for: clear/partial/unclear
- What's different: clear/partial/unclear
- What to do next: clear/partial/unclear
- **VERDICT:** PASS/PARTIAL/FAIL

## 2. POSITIONING ANALYSIS
| Element | Score | Notes |
|---------|-------|-------|
| Competitive Frame | /100 | |
| Target Audience | /100 | |
| Differentiation | /100 | |
| Problem Clarity | /100 | |
| **OVERALL** | /100 | |

## 3. MESSAGING ANALYSIS
| Layer | Present | Score | Issues |
|-------|---------|-------|--------|
| Positioning Statement | Y/N | /100 | |
| Value Proposition | Y/N | /100 | |
| Key Messages | Y/N | /100 | |
| Proof Points | Y/N | /100 | |
| Micro-Copy | Y/N | /100 | |
| **OVERALL** | | /100 | |

## 4. HOMEPAGE STRUCTURE (if applicable)
| Element | Score | Issues |
|---------|-------|--------|
| Hero Clarity | /100 | |
| CTA Strategy | /100 | |
| Social Proof | /100 | |
| Information Hierarchy | /100 | |
| **OVERALL** | /100 | |

## 5. ANTI-PATTERNS DETECTED
### Critical (Must Fix)
1.
2.

### High Priority (Should Fix)
1.
2.

### Medium (Consider)
1.

## 6. ICP CLARITY
- Specificity Score: /100
- Issues:

## PRIORITIZED ISSUES

### Critical (Fix This Week)
| Issue | Location | Impact | Recommendation |
|-------|----------|--------|----------------|
| | | | |

### High Priority (Fix This Month)
| Issue | Location | Impact | Recommendation |
|-------|----------|--------|----------------|
| | | | |

### Nice to Have
| Issue | Location | Impact | Recommendation |
|-------|----------|--------|----------------|
| | | | |

## WHAT'S WORKING
1.
2.
3.

## KEY REWRITES NEEDED

**Current:** "..."
**Suggested:** "..."
**Why:** ...

(Repeat for top 3 copy issues)

## OVERALL SCORES
| Dimension | Score |
|-----------|-------|
| Positioning | /100 |
| Messaging | /100 |
| Homepage UX | /100 |
| ICP Clarity | /100 |
| **OVERALL PMM SCORE** | /100 |

## READY TO SHIP?
[ ] YES - Minor polish only
[ ] NEEDS WORK - Significant improvements needed
[ ] NO - Critical issues must be addressed

## NEXT STEPS
1.
2.
3.''\<close>

definition run_complete_pmm_audit :: "string \<Rightarrow> string option \<Rightarrow> string option \<Rightarrow> string option \<Rightarrow> envelope" where
\<open>run_complete_pmm_audit asset_content asset_type asset_url company_context =
   [(''task'', JString ''complete_pmm_audit''),
    (''instructions'', JString (run_complete_pmm_audit_instructions)),
    (''asset_content'', JString asset_content),
    (''asset_type'', JString (arg_or_default ''homepage'' asset_type)),
    (''asset_url'', json_str_opt asset_url),
    (''company_context'', json_str_opt company_context)]\<close>


subsection \<open>tools/web.py\<close>

definition fetch_homepage_instructions :: "string \<Rightarrow> string \<Rightarrow> string" where
\<open>fetch_homepage_instructions url extract_mode =
   ''Fetch and analyze the homepage at: ''
   @ url
   @ ''

Extract and structure:

## HERO SECTION
- Headline (exact text)
- Subheadline (exact text)
- Primary CTA (button text)
- Secondary CTA (if present)
- Logo/brand name
- Navigation items
- Social proof in hero (logos, stats)

## ABOVE THE FOLD
- All visible text without scrolling
- Visual elements described
- Layout structure

## FULL PAGE SECTIONS (in order)
For each section:
- Section name/purpose
- Headline
- Key copy
- CTAs
- Social proof elements

## SOCIAL PROOF INVENTORY
- Logo bar: [list companies]
- Testimonials: [quote, name, title, company]
- Metrics: [specific numbers claimed]
- Case studies: [titles/summaries]
- Awards/badges: [list]

## CTA INVENTORY
List every CTA on the page:
- Text | Location | Primary/Secondary

## META INFORMATION
- Page title
- Meta description
- Open Graph tags (if visible)

Extract mode: ''
   @ extract_mode\<close>

definition fetch_homepage :: "string \<Rightarrow> string option \<Rightarrow> envelope" where
\<open>fetch_homepage url extract_mode =
   [(''task'', JString ''fetch_homepage''),
    (''instructions'', JString (fetch_homepage_instructions url (arg_or_default ''full'' extract_mode))),
    (''url'', JString url),
    (''extract_mode'', JString (arg_or_default ''full'' extract_mode))]\<close>

definition fetch_competitor_homepage_instructions :: "string \<Rightarrow> string option \<Rightarrow> string" where
\<open>fetch_competitor_homepage_instructions competitor_url your_url =
   ''Analyze competitor homepage: ''
   @ competitor_url
   @ ''

## COMPETITOR POSITIONING
- What do they claim to do?
- Who do they target?
- What's their key differentiator?
- What category do they claim?

## COMPETITOR MESSAGING
- Value proposition (hero)
- Key message pillars
- Proof points used
- CTA strategy

## COMPETITOR WEAKNESSES
- What's unclear?
- What's missing?
- What's overpromised?
- Where are they vulnerable?

## DIFFERENTIATION OPPORTUNITIES
Based on their positioning, you could:
1. Own a different segment
2. Solve a different problem
3. Use a different approach
4. Claim a different attribute

## COMPETITIVE FRAME SUGGESTIONS
"Unlike [competitor], we..."
1.
2.
3.

''
   @ (if str_truthy your_url then ''Compare against your site: '' @ format_str your_url else '''')\<close>

definition fetch_competitor_homepage :: "string \<Rightarrow> string option \<Rightarrow> envelope" where
\<open>fetch_competitor_homepage competitor_url your_url =
   [(''task'', JString ''competitor_analysis''),
    (''instructions'', JString (fetch_competitor_homepage_instructions competitor_url your_url)),
    (''competitor_url'', JString competitor_url),
    (''your_url'', json_str_opt your_url)]\<close>

definition analyze_landing_page_instructions :: "string \<Rightarrow> string option \<Rightarrow> string" where
\<open>analyze_landing_page_instructions url campaign_context =
   ''Analyze landing page: ''
   @ url
   @ ''

## MESSAGE MATCH
- Does the headline match the likely ad/source?
- Is there message continuity?
- Score (0-100):

## SINGLE FOCUS
- Is there ONE clear offer?
- Are there distracting navigation/links?
- Score (0-100):

## VALUE PROPOSITION
- Is the value clear above fold?
- Is it specific to this offer?
- Score (0-100):

## FORM ANALYSIS (if present)
- Number of fields:
- Friction level:
- Value exchange clear?

## TRUST ELEMENTS
- Social proof present?
- Security indicators?
- Testimonials specific to offer?

## CTA ANALYSIS
- Primary CTA text:
- Is it benefit-oriented?
- Is there urgency/scarcity?
- Contrast and visibility?

## MOBILE CONSIDERATIONS
- Likely mobile-friendly?
- Key content above fold on mobile?

## CONVERSION BLOCKERS
List anything that might prevent conversion:
1.
2.
3.

## RECOMMENDATIONS
Priority fixes:
1.
2.
3.

''
   @ (if str_truthy campaign_context then ''Campaign context: '' @ format_str campaign_context else '''')\<close>

definition analyze_landing_page :: "string \<Rightarrow> string option \<Rightarrow> envelope" where
\<open>analyze_landing_page url campaign_context =
   [(''task'', JString ''landing_page_analysis''),
    (''instructions'', JString (analyze_landing_page_instructions url campaign_context)),
    (''url'', JString url),
    (''campaign_context'', json_str_opt campaign_context)]\<close>

definition scrape_social_proof_instructions :: "string \<Rightarrow> string" where
\<open>scrape_social_proof_instructions url =
   ''Extract all social proof from: ''
   @ url
   @ ''

## LOGO BAR
- Companies shown: [list all]
- Recognizable to target? (yes/partial/no)
- Placement on page:

## TESTIMONIALS
For each testimonial:
| Quote | Name | Title | Company | Specific Result? |
|-------|------|-------|---------|------------------|
| | | | | |

## METRICS/STATS
| Claim | Specific? | Believable? |
|-------|-----------|-------------|
| | | |

## CASE STUDIES
- Titles:
- Specific outcomes mentioned:
- Named companies:

## AWARDS/RECOGNITION
- Badges shown:
- Publications mentioned:
- Certifications:

## SOCIAL PROOF ASSESSMENT

### Strengths
- What's working well?

### Gaps
- What's missing?
- What would strengthen trust?

### Recommendations
1.
2.
3.

## SOCIAL PROOF SCORE (0-100)
- Quantity:
- Quality:
- Specificity:
- Relevance:
- **Overall:**''\<close>

definition scrape_social_proof :: "string \<Rightarrow> envelope" where
\<open>scrape_social_proof url =
   [(''task'', JString ''social_proof_inventory''),
    (''instructions'', JString (scrape_social_proof_instructions url)),
    (''url'', JString url)]\<close>


subsection \<open>tools/creation.py\<close>

definition create_positioning_canvas_instructions :: "(nat \<Rightarrow> bool) \<Rightarrow> string \<Rightarrow> string option \<Rightarrow> string list option \<Rightarrow> string list option \<Rightarrow> string" where
\<open>create_positioning_canvas_instructions isprintable product_description target_audience known_competitors unique_capabilities =
   ''Create positioning canvas:

# POSITIONING CANVAS

## 1. TARGET CUSTOMER

**Role/Title:**
(Be specific - "Marketing Directors at B2B SaaS companies" not "marketers")

**Company Type:**
(B2B/B2C, size, stage, characteristics)

**Industry:**
(Specific vertical or "horizontal with focus on X")

**Situation/Trigger:**
(What event makes them look for this solution?)

**Validation:** Is this specific enough that you could build a target list?

---

## 2. COMPETITIVE ALTERNATIVE

**Primary Alternative:**
(What do they do today without your product?)

**Type:**
[ ] Direct Competitor: ___
[ ] Manual Process: ___
[ ] Status Quo: ___
[ ] Homegrown Solution: ___

---

## 3. WHY THAT SUCKS

**Pain Point 1:**
(Most urgent pain)

**Pain Point 2:**
(Second most important)

**Pain Point 3:**
(Supporting pain)

---

## 4. YOUR UNIQUE APPROACH

**Key Differentiator:**
(What do you do fundamentally differently?)

**Methodology/Approach:**
(How do you solve it differently?)

**Unique Capability:**
(What can you do that alternatives can't?)

---

## 5. WHY THAT'S BETTER

**Primary Benefit:**
(The main outcome customers get)

**Supporting Benefit:**
(Secondary value)

**Proof Point:**
(Evidence this is true)

---

## 6. POSITIONING STRATEGY

**Approach:**
[ ] Category-Based: Competing within ___
[ ] Use-Case-Based: Best for ___

---

## 7. POSITIONING STATEMENTS

**Internal Positioning Statement:**
"For [target customer] who [situation], [product] is a [category] that [key benefit]. Unlike [competitive alternative], we [key differentiator]."

**Differentiation Summary:**
"Unlike [competitive alternative], which [problem with alternative], [product] [unique approach] so that [target customer] can [key benefit]."

**Homepage One-Liner:**
"[Product]: The [category/approach] for [audience]"

---

## VALIDATION CHECKLIST

- [ ] Competitive alternative is clearly defined
- [ ] Target customer is specific (not "everyone")
- [ ] Differentiation is meaningful (customers care)
- [ ] Differentiation is defensible (hard to copy)
- [ ] Problem/pain is explicit
- [ ] Could NOT be said by any competitor

Product: ''
   @ product_description
   @ ''
''
   @ (if str_truthy target_audience then ''Target: '' @ format_str target_audience else '''')
   @ ''
''
   @ (if list_truthy known_competitors then ''Competitors: '' @ format_list isprintable known_competitors else '''')
   @ ''
''
   @ (if list_truthy unique_capabilities then ''Unique capabilities: '' @ format_list isprintable unique_capabilities else '''')\<close>

definition create_positioning_canvas :: "(nat \<Rightarrow> bool) \<Rightarrow> string \<Rightarrow> string option \<Rightarrow> string list option \<Rightarrow> string list option \<Rightarrow> envelope" where
\<open>create_positioning_canvas isprintable product_description target_audience known_competitors unique_capabilities =
   [(''task'', JString ''create_positioning_canvas''),
    (''instructions'', JString (create_positioning_canvas_instructions isprintable product_description target_audience known_competitors unique_capabilities)),
    (''product_description'', JString product_description),
    (''target_audience'', json_str_opt target_audience),
    (''known_competitors'', json_list_opt known_competitors),
    (''unique_capabilities'', json_list_opt unique_capabilities)]\<close>

definition create_messaging_framework_instructions :: "(nat \<Rightarrow> bool) \<Rightarrow> string \<Rightarrow> string option \<Rightarrow> string list option \<Rightarrow> string" where
\<open>create_messaging_framework_instructions isprintable positioning_canvas primary_persona secondary_personas =
   ''Create messaging framework:

# MESSAGING FRAMEWORK

## VALUE PROPOSITION
(Top of the messaging house - what you do + why it matters)

**Format:** [Product] helps [audience] [achieve outcome] by [unique approach].

**Value Prop:**


---

## MESSAGING HOUSE

```
''
   @ box_dr
   @ rep 53 box_h
   @ box_dl
   @ ''
''
   @ box_v
   @ ''              VALUE PROPOSITION                       ''
   @ box_v
   @ ''
''
   @ box_v
   @ ''  [Write the value prop here]                        ''
   @ box_v
   @ ''
''
   @ box_vr
   @ rep 17 box_h
   @ box_dh
   @ rep 17 box_h
   @ box_dh
   @ rep 17 box_h
   @ box_vl
   @ ''
''
   @ box_v
   @ ''    PILLAR 1     ''
   @ box_v
   @ ''    PILLAR 2     ''
   @ box_v
   @ ''    PILLAR 3     ''
   @ box_v
   @ ''
''
   @ box_v
   @ ''  [Main diff]    ''
   @ box_v
   @ ''  [Core benefit] ''
   @ box_v
   @ ''  [Trust/ease]   ''
   @ box_v
   @ ''
''
   @ box_vr
   @ rep 17 box_h
   @ box_vh
   @ rep 17 box_h
   @ box_vh
   @ rep 17 box_h
   @ box_vl
   @ ''
''
   @ box_v
   @ ''  ''
   @ bullet
   @ '' Proof 1      ''
   @ box_v
   @ ''  ''
   @ bullet
   @ '' Proof 1      ''
   @ box_v
   @ ''  ''
   @ bullet
   @ '' Proof 1      ''
   @ box_v
   @ ''
''
   @ box_v
   @ ''  ''
   @ bullet
   @ '' Proof 2      ''
   @ box_v
   @ ''  ''
   @ bullet
   @ '' Proof 2      ''
   @ box_v
   @ ''  ''
   @ bullet
   @ '' Proof 2      ''
   @ box_v
   @ ''
''
   @ box_v
   @ ''  ''
   @ bullet
   @ '' Proof 3      ''
   @ box_v
   @ ''  ''
   @ bullet
   @ '' Proof 3      ''
   @ box_v
   @ ''  ''
   @ bullet
   @ '' Proof 3      ''
   @ box_v
   @ ''
''
   @ box_vr
   @ rep 17 box_h
   @ box_uh
   @ rep 17 box_h
   @ box_uh
   @ rep 17 box_h
   @ box_vl
   @ ''
''
   @ box_v
   @ ''  FOUNDATION: [Target audience] + [Competitive alt]  ''
   @ box_v
   @ ''
''
   @ box_ur
   @ rep 53 box_h
   @ box_ul
   @ ''
```

---

## PILLAR 1: [Primary Differentiation]

**Key Message:**
(Benefit-oriented statement about your main differentiator)

**Supporting Points:**
1.
2.
3.

**Proof Points:**
- Metric:
- Testimonial:
- Case study:

---

## PILLAR 2: [Core Capability Benefit]

**Key Message:**


**Supporting Points:**
1.
2.
3.

**Proof Points:**
- Metric:
- Testimonial:
- Case study:

---

## PILLAR 3: [Trust/Ease/Speed]

**Key Message:**


**Supporting Points:**
1.
2.
3.

**Proof Points:**
- Metric:
- Testimonial:
- Case study:

---

## PERSONA-SPECIFIC MESSAGING

''
   @ (if str_truthy primary_persona then ''### Primary Persona: '' @ format_str primary_persona else ''### Primary Persona'')
   @ ''

| Aspect | Message |
|--------|---------|
| Pain Point | |
| Desired Outcome | |
| Key Message | |
| Proof Point | |
| Likely Objection | |
| Objection Response | |

''
   @ (if list_truthy secondary_personas then ''### Secondary Personas: '' @ format_list isprintable secondary_personas else '''')
   @ ''

---

## HEADLINE OPTIONS

**Problem-led:**
1.
2.

**Solution-led:**
1.
2.

**Outcome-led:**
1.
2.

**Differentiation-led:**
1.
2.

---

## CTA OPTIONS

**Primary CTA (high intent):**
1.
2.

**Secondary CTA (low intent):**
1.
2.

---

## ELEVATOR PITCH

**30-second version:**


**10-second version:**


Positioning: ''
   @ positioning_canvas\<close>

definition create_messaging_framework :: "(nat \<Rightarrow> bool) \<Rightarrow> string \<Rightarrow> string option \<Rightarrow> string list option \<Rightarrow> envelope" where
\<open>create_messaging_framework isprintable positioning_canvas primary_persona secondary_personas =
   [(''task'', JString ''create_messaging_framework''),
    (''instructions'', JString (create_messaging_framework_instructions isprintable positioning_canvas primary_persona secondary_personas)),
    (''positioning_canvas'', JString positioning_canvas),
    (''primary_persona'', json_str_opt primary_persona),
    (''secondary_personas'', json_list_opt secondary_personas)]\<close>

definition create_homepage_wireframe_instructions :: "string \<Rightarrow> string \<Rightarrow> string" where
\<open>create_homepage_wireframe_instructions messaging_framework style =
   ''Create homepage wireframe:

# HOMEPAGE WIREFRAME

## SECTION 1: HERO

**Headline:**
(Clear, not clever. What you do + who for.)

**Subheadline:**
(Supports headline. Adds context, doesn't repeat.)

**Primary CTA:**
(Benefit-oriented. What happens when they click?)

**Secondary CTA:**
(For not-ready visitors. Lower commitment.)

**Social Proof in Hero:**
(Logo bar or key metric)

---

## SECTION 2: SOCIAL PROOF BAR

**Logos to include:**
(5-7 recognizable logos for target audience)

**Alternative if no logos:**
(Key metric or testimonial snippet)

---

## SECTION 3: PROBLEM/PAIN

**Headline:**
(Agitate the problem they have)

**Pain points:**
1.
2.
3.

---

## SECTION 4: SOLUTION/HOW IT WORKS

**Headline:**
(How you solve it)

**3 Steps or Features:**

| Step | Headline | Description |
|------|----------|-------------|
| 1 | | |
| 2 | | |
| 3 | | |

---

## SECTION 5: KEY BENEFITS (Pillars)

**Section Headline:**

**Benefit 1:**
- Headline:
- Description:
- Proof point:

**Benefit 2:**
- Headline:
- Description:
- Proof point:

**Benefit 3:**
- Headline:
- Description:
- Proof point:

---

## SECTION 6: SOCIAL PROOF DEEP

**Testimonial 1:**
- Quote:
- Name, Title, Company:
- Specific result:

**Testimonial 2:**
- Quote:
- Name, Title, Company:
- Specific result:

**Case Study Preview:**
- Company:
- Result:
- CTA to full case study:

---

## SECTION 7: DIFFERENTIATION

**Headline:**
(Why choose us over alternatives)

**Comparison or unique points:**

---

## SECTION 8: CTA SECTION

**Headline:**
(Final push - urgency or benefit)

**Primary CTA:**

**Friction reducers:**
(Free trial, no credit card, etc.)

---

## SECTION 9: FAQ (Optional)

**Q1:**
**A1:**

**Q2:**
**A2:**

**Q3:**
**A3:**

---

## SECTION 10: FOOTER CTA

**Headline:**

**CTA:**

---

## COPY CHECKLIST

- [ ] Hero passes 5-second test
- [ ] Only ONE primary CTA per section
- [ ] All features translated to benefits
- [ ] Social proof includes names and specifics
- [ ] No jargon or buzzwords
- [ ] Scannable structure

Style: ''
   @ style
   @ ''
Messaging: ''
   @ messaging_framework\<close>

definition create_homepage_wireframe :: "string \<Rightarrow> string option \<Rightarrow> envelope" where
\<open>create_homepage_wireframe messaging_framework style =
   [(''task'', JString ''create_homepage_wireframe''),
    (''instructions'', JString (create_homepage_wireframe_instructions messaging_framework (arg_or_default ''standard'' style))),
    (''messaging_framework'', JString messaging_framework),
    (''style'', JString (arg_or_default ''standard'' style))]\<close>

definition generate_differentiation_statements_instructions :: "(nat \<Rightarrow> bool) \<Rightarrow> string \<Rightarrow> string \<Rightarrow> string list \<Rightarrow> string option \<Rightarrow> string" where
\<open>generate_differentiation_statements_instructions isprintable product_description competitive_alternative unique_capabilities target_audience =
   ''Generate differentiation statements:

# DIFFERENTIATION STATEMENTS

## "UNLIKE X, WE Y" STATEMENTS

**Statement 1 (Primary):**
"Unlike [alternative], which [problem], [product] [unique approach] so you can [benefit]."

**Statement 2:**


**Statement 3:**


**Statement 4:**


**Statement 5:**


---

## POSITIONING ANGLES

### Angle 1: Problem-Focused
"Stop [painful thing]. Start [better outcome]."

### Angle 2: Audience-Focused
"The [category] built for [specific audience]."

### Angle 3: Approach-Focused
"The only [category] that [unique approach]."

### Angle 4: Outcome-Focused
"[Achieve outcome] in [timeframe/easier way]."

### Angle 5: Anti-Alternative
"[Alternative] wasn't built for [your use case]. We were."

---

## CATEGORY OPTIONS

**Option 1: Existing Category**
"The [existing category] for [your segment]"
Example:

**Option 2: New Category**
"[New category name] - [definition]"
Example:

**Option 3: Use Case**
"The best way to [specific job-to-be-done]"
Example:

---

## HEADLINE OPTIONS

**Clear and Direct:**
1.
2.
3.

**Problem-Agitation:**
1.
2.
3.

**Differentiation-Led:**
1.
2.
3.

---

## VALIDATION QUESTIONS

To test these with customers, ask:
1. "Does this describe a problem you have?"
2. "Does this sound different from [competitor]?"
3. "Would this make you want to learn more?"

Product: ''
   @ product_description
   @ ''
Alternative: ''
   @ competitive_alternative
   @ ''
Capabilities: ''
   @ py_str_list isprintable unique_capabilities
   @ ''
''
   @ (if str_truthy target_audience then ''Audience: '' @ format_str target_audience else '''')\<close>

definition generate_differentiation_statements :: "(nat \<Rightarrow> bool) \<Rightarrow> string \<Rightarrow> string \<Rightarrow> string list \<Rightarrow> string option \<Rightarrow> envelope" where
\<open>generate_differentiation_statements isprintable product_description competitive_alternative unique_capabilities target_audience =
   [(''task'', JString ''generate_differentiation''),
    (''instructions'', JString (generate_differentiation_statements_instructions isprintable product_description competitive_alternative unique_capabilities target_audience)),
    (''product_description'', JString product_description),
    (''competitive_alternative'', JString competitive_alternative),
    (''unique_capabilities'', json_list unique_capabilities),
    (''target_audience'', json_str_opt target_audience)]\<close>


subsection \<open>Reading an envelope\<close>

text \<open>
  A member of the returned object is looked up with \<^const>\<open>map_of\<close>. The predicates
  below say that a member is a string that is not empty, that an object holds the task
  tag and the instruction text, and that it holds given members; \<open>instructions_of\<close>
  reads the instruction text.
\<close>

fun is_nonempty_string :: "json option \<Rightarrow> bool" where
  "is_nonempty_string (Some (JString s)) = (s \<noteq> [])"
| "is_nonempty_string _ = False"

definition has_task_and_instructions :: "envelope \<Rightarrow> bool" where
  "has_task_and_instructions e =
     (is_nonempty_string (map_of e ''task'') \<and> is_nonempty_string (map_of e ''instructions''))"

fun echoes :: "envelope \<Rightarrow> (string \<times> json) list \<Rightarrow> bool" where
  "echoes e [] = True"
| "echoes e ((k, v) # ps) = (map_of e k = Some v \<and> echoes e ps)"

definition instructions_of :: "envelope \<Rightarrow> string" where
  "instructions_of e = (case map_of e ''instructions'' of Some (JString s) \<Rightarrow> s | _ \<Rightarrow> [])"


subsection \<open>Calls: the registered tools\<close>

text \<open>
  A call names one of the seventeen tools and gives its arguments.
\<close>

datatype template_call =
    Call_run_five_second_test string "string option"
  | Call_analyze_positioning string "string option"
  | Call_analyze_messaging string "string option"
  | Call_analyze_homepage_structure string "bool option"
  | Call_detect_anti_patterns string "string option"
  | Call_generate_rewrite string string "string option" "string option"
  | Call_build_competitive_frame string "string list option" "string option"
  | Call_analyze_icp string "string option"
  | Call_run_complete_pmm_audit string "string option" "string option" "string option"
  | Call_fetch_homepage string "string option"
  | Call_fetch_competitor_homepage string "string option"
  | Call_analyze_landing_page string "string option"
  | Call_scrape_social_proof string
  | Call_create_positioning_canvas string "string option" "string list option"
      "string list option"
  | Call_create_messaging_framework string "string option" "string list option"
  | Call_create_homepage_wireframe string "string option"
  | Call_generate_differentiation_statements string string "string list" "string option"

text \<open>
  The closed value sets the signatures declare: \<^verbatim>\<open>asset_type\<close> of the five-second
  test and of the complete audit, \<^verbatim>\<open>asset_type\<close> of the anti-pattern scan,
  \<^verbatim>\<open>extract_mode\<close>, and \<^verbatim>\<open>style\<close>. (\<open>ISSUE_TYPES\<close> is defined with
  \<^verbatim>\<open>generate_rewrite\<close>.)
\<close>

definition ASSET_TYPES :: "string list" where
  "ASSET_TYPES = [''homepage'', ''landing_page'', ''sales_deck'', ''email'', ''ad'']"

definition SCAN_ASSET_TYPES :: "string list" where
  "SCAN_ASSET_TYPES = [''homepage'', ''landing_page'', ''sales_deck'', ''email'', ''ad'', ''all'']"

definition EXTRACT_MODES :: "string list" where
  "EXTRACT_MODES = [''full'', ''above_fold'', ''hero_only'']"

definition WIREFRAME_STYLES :: "string list" where
  "WIREFRAME_STYLES = [''minimal'', ''standard'', ''comprehensive'']"

text \<open>
  The argument schema of a tool: the errors validation reports for a call. With the
  arguments at their declared types, only a \<^verbatim>\<open>Literal\<close> parameter can fail.
\<close>

fun args_schema :: "template_call \<Rightarrow> validation_error list" where
  "args_schema (Call_run_five_second_test a t) =
     check_literal ''asset_type'' ASSET_TYPES (arg_or_default ''homepage'' t)"
| "args_schema (Call_detect_anti_patterns a t) =
     check_literal ''asset_type'' SCAN_ASSET_TYPES (arg_or_default ''all'' t)"
| "args_schema (Call_generate_rewrite c i p a) =
     check_literal ''issue_type'' ISSUE_TYPES i"
| "args_schema (Call_run_complete_pmm_audit a t u c) =
     check_literal ''asset_type'' ASSET_TYPES (arg_or_default ''homepage'' t)"
| "args_schema (Call_fetch_homepage u m) =
     check_literal ''extract_mode'' EXTRACT_MODES (arg_or_default ''full'' m)"
| "args_schema (Call_create_homepage_wireframe f s) =
     check_literal ''style'' WIREFRAME_STYLES (arg_or_default ''standard'' s)"
| "args_schema _ = []"

text \<open>The function a call runs once its arguments are accepted.\<close>

fun run_function :: "(nat \<Rightarrow> bool) \<Rightarrow> template_call \<Rightarrow> envelope" where
  "run_function pr (Call_run_five_second_test a t) = run_five_second_test a t"
| "run_function pr (Call_analyze_positioning a c) = analyze_positioning a c"
| "run_function pr (Call_analyze_messaging a p) = analyze_messaging a p"
| "run_function pr (Call_analyze_homepage_structure a s) = analyze_homepage_structure a s"
| "run_function pr (Call_detect_anti_patterns a t) = detect_anti_patterns a t"
| "run_function pr (Call_generate_rewrite c i p a) = generate_rewrite c i p a"
| "run_function pr (Call_build_competitive_frame d k c) = build_competitive_frame d k c"
| "run_function pr (Call_analyze_icp a c) = analyze_icp a c"
| "run_function pr (Call_run_complete_pmm_audit a t u c) = run_complete_pmm_audit a t u c"
| "run_function pr (Call_fetch_homepage u m) = fetch_homepage u m"
| "run_function pr (Call_fetch_competitor_homepage c y) = fetch_competitor_homepage c y"
| "run_function pr (Call_analyze_landing_page u c) = analyze_landing_page u c"
| "run_function pr (Call_scrape_social_proof u) = scrape_social_proof u"
| "run_function pr (Call_create_positioning_canvas d t k u) =
     create_positioning_canvas pr d t k u"
| "run_function pr (Call_create_messaging_framework c p s) =
     create_messaging_framework pr c p s"
| "run_function pr (Call_create_homepage_wireframe f s) = create_homepage_wireframe f s"
| "run_function pr (Call_generate_differentiation_statements d a u t) =
     generate_differentiation_statements pr d a u t"

text \<open>
  Invoking a tool: the arguments are validated against the schema; a call that fails
  raises the validation error and the function does not run. The first argument is the
  interpreter's table of printable code points, which rendering a list reads.
\<close>

definition invoke :: "(nat \<Rightarrow> bool) \<Rightarrow> template_call \<Rightarrow> validation_error list + envelope" where
  "invoke pr c = validated (args_schema c) (run_function pr c)"

text \<open>
  A table for examples: it classes no code point beyond ASCII as printable. A call whose
  arguments are ASCII does not read the table.
\<close>

definition escape_all :: "nat \<Rightarrow> bool" where
  "escape_all cp = False"

text \<open>
  The instruction text of \<^verbatim>\<open>generate_rewrite\<close> around the fix approach: what the
  template writes before it and after it.
\<close>

definition rewrite_before_fix :: "string \<Rightarrow> string \<Rightarrow> string" where
\<open>rewrite_before_fix c i =
   ''Rewrite this copy to fix: '' @ i @ ''

**Original:**
'' @ c @ ''

**Issue:** '' @ i @ ''
**Fix approach:** ''\<close>

definition rewrite_after_fix :: "string option \<Rightarrow> string option \<Rightarrow> string" where
\<open>rewrite_after_fix p a =
   ''

**Target persona:** '' @ py_or p ''Not specified'' @ ''
**Competitive alternative:** '' @ py_or a ''Not specified'' @ ''

Provide:
1. **Analysis:** Why the original fails
2. **Rewrite Option 1:** Conservative improvement
3. **Rewrite Option 2:** Bold improvement
4. **Rewrite Option 3:** If persona specified, persona-specific version
5. **Why these work:** Explanation of improvements''\<close>


section \<open>Tool registry and subagents (agent.py, subagents/specialists.py)\<close>

text \<open>
  The registries are lists of the tool objects the decorator made of the seventeen
  functions. A tool object is referred to by a constructor \<open>T_f\<close> for the function
  \<open>f\<close>; its \<^verbatim>\<open>name\<close> attribute is the function's name.
\<close>

datatype tool =
    T_run_five_second_test
  | T_analyze_positioning
  | T_analyze_messaging
  | T_analyze_homepage_structure
  | T_detect_anti_patterns
  | T_generate_rewrite
  | T_build_competitive_frame
  | T_analyze_icp
  | T_run_complete_pmm_audit
  | T_fetch_homepage
  | T_fetch_competitor_homepage
  | T_analyze_landing_page
  | T_scrape_social_proof
  | T_create_positioning_canvas
  | T_create_messaging_framework
  | T_create_homepage_wireframe
  | T_generate_differentiation_statements

fun tool_name :: "tool \<Rightarrow> string" where
  "tool_name T_run_five_second_test = ''run_five_second_test''"
| "tool_name T_analyze_positioning = ''analyze_positioning''"
| "tool_name T_analyze_messaging = ''analyze_messaging''"
| "tool_name T_analyze_homepage_structure = ''analyze_homepage_structure''"
| "tool_name T_detect_anti_patterns = ''detect_anti_patterns''"
| "tool_name T_generate_rewrite = ''generate_rewrite''"
| "tool_name T_build_competitive_frame = ''build_competitive_frame''"
| "tool_name T_analyze_icp = ''analyze_icp''"
| "tool_name T_run_complete_pmm_audit = ''run_complete_pmm_audit''"
| "tool_name T_fetch_homepage = ''fetch_homepage''"
| "tool_name T_fetch_competitor_homepage = ''fetch_competitor_homepage''"
| "tool_name T_analyze_landing_page = ''analyze_landing_page''"
| "tool_name T_scrape_social_proof = ''scrape_social_proof''"
| "tool_name T_create_positioning_canvas = ''create_positioning_canvas''"
| "tool_name T_create_messaging_framework = ''create_messaging_framework''"
| "tool_name T_create_homepage_wireframe = ''create_homepage_wireframe''"
| "tool_name T_generate_differentiation_statements = ''generate_differentiation_statements''"

definition EVALUATION_TOOLS :: "tool list" where
  "EVALUATION_TOOLS =
     [T_run_five_second_test,
      T_analyze_positioning,
      T_analyze_messaging,
      T_analyze_homepage_structure,
      T_detect_anti_patterns,
      T_generate_rewrite,
      T_build_competitive_frame,
      T_analyze_icp,
      T_run_complete_pmm_audit]"

definition WEB_TOOLS :: "tool list" where
  "WEB_TOOLS =
     [T_fetch_homepage,
      T_fetch_competitor_homepage,
      T_analyze_landing_page,
      T_scrape_social_proof]"

definition CREATION_TOOLS :: "tool list" where
  "CREATION_TOOLS =
     [T_create_positioning_canvas,
      T_create_messaging_framework,
      T_create_homepage_wireframe,
      T_generate_differentiation_statements]"

definition ALL_TOOLS :: "tool list" where
  "ALL_TOOLS = EVALUATION_TOOLS @ WEB_TOOLS @ CREATION_TOOLS"

text \<open>
  The prompt texts of \<^verbatim>\<open>prompts.py\<close> (and the one prompt \<^verbatim>\<open>specialists.py\<close>
  holds) are passed on unread; a prompt is referred to by the name of its constant.
\<close>

datatype prompt =
    PMM_EVALUATOR_SYSTEM_PROMPT
  | POSITIONING_ANALYST_PROMPT
  | MESSAGING_ANALYST_PROMPT
  | HOMEPAGE_ANALYST_PROMPT
  | ANTI_PATTERN_DETECTOR_PROMPT
  | ICP_ANALYST_PROMPT
  | COMPETITIVE_ANALYST_PROMPT

record subagent =
  name :: string
  description :: string
  system_prompt :: prompt
  tools :: "tool list"

definition positioning_analyst_subagent :: subagent where
\<open>positioning_analyst_subagent = subagent.make
   ''positioning-analyst''
   ''Use this subagent when you need deep analysis of positioning strategy.

    Specializes in:
    - Positioning Canvas analysis (April Dunford methodology)
    - Competitive frame evaluation
    - Target customer specificity assessment
    - Differentiation meaningfulness and defensibility
    - Category vs. use-case positioning decisions

    Use for:
    - "Analyze the positioning of this homepage"
    - "Is the competitive frame clear?"
    - "How specific is the target audience?"
    - "Is the differentiation defensible?"
    ''
   POSITIONING_ANALYST_PROMPT
   [T_analyze_positioning, T_build_competitive_frame, T_create_positioning_canvas, T_generate_differentiation_statements, T_fetch_competitor_homepage]\<close>

definition messaging_analyst_subagent :: subagent where
\<open>messaging_analyst_subagent = subagent.make
   ''messaging-analyst''
   ''Use this subagent when you need deep analysis of messaging.

    Specializes in:
    - Five-layer messaging hierarchy assessment
    - Messaging house structure evaluation
    - Clarity and specificity scoring
    - Feature-to-benefit translation
    - Copy rewriting for clarity

    Use for:
    - "Analyze the messaging layers"
    - "Is the value proposition clear?"
    - "Are features translated to benefits?"
    - "Rewrite this jargon-filled copy"
    ''
   MESSAGING_ANALYST_PROMPT
   [T_analyze_messaging, T_generate_rewrite, T_detect_anti_patterns]\<close>

definition homepage_analyst_subagent :: subagent where
\<open>homepage_analyst_subagent = subagent.make
   ''homepage-analyst''
   ''Use this subagent when you need deep analysis of homepage structure and UX.

    Specializes in:
    - 5-second test execution
    - Hero section effectiveness
    - Information hierarchy assessment
    - CTA strategy evaluation
    - Social proof audit

    Use for:
    - "Does this homepage pass the 5-second test?"
    - "Is the hero section effective?"
    - "How's the CTA strategy?"
    - "What social proof is missing?"
    ''
   HOMEPAGE_ANALYST_PROMPT
   [T_fetch_homepage, T_detect_anti_patterns, T_generate_rewrite]\<close>

definition anti_pattern_detector_subagent :: subagent where
\<open>anti_pattern_detector_subagent = subagent.make
   ''anti-pattern-detector''
   ''Use this subagent to scan for PMM anti-patterns and mistakes.

    Detects:
    - Positioning anti-patterns (pigeonholing refusal, outcome-only, no frame)
    - Messaging anti-patterns (jargon, feature dumps, clever over clear)
    - Homepage anti-patterns (unclear hero, too many CTAs)
    - ICP anti-patterns (too broad, aspirational)
    - GTM anti-patterns (founder bias, sales-driven positioning)

    Use for:
    - "What anti-patterns exist in this asset?"
    - "Scan for common PMM mistakes"
    - "What's hurting conversion?"
    ''
   ANTI_PATTERN_DETECTOR_PROMPT
   [T_detect_anti_patterns, T_generate_rewrite]\<close>

definition icp_analyst_subagent :: subagent where
\<open>icp_analyst_subagent = subagent.make
   ''icp-analyst''
   ''Use this subagent for Ideal Customer Profile analysis.

    Specializes in:
    - ICP specificity assessment
    - Persona definition evaluation
    - Situation/trigger identification
    - Firmographic analysis
    - Buyer vs. user distinction

    Use for:
    - "How specific is the ICP?"
    - "Is the target audience well-defined?"
    - "What triggers the buying decision?"
    - "Are there too many personas?"
    ''
   ICP_ANALYST_PROMPT
   [T_analyze_icp, T_detect_anti_patterns]\<close>

definition competitive_analyst_subagent :: subagent where
\<open>competitive_analyst_subagent = subagent.make
   ''competitive-analyst''
   ''Use this subagent for competitive analysis and differentiation.

    Specializes in:
    - Competitor homepage analysis
    - Competitive positioning gaps
    - Differentiation opportunity identification
    - "Unlike X, we Y" statement generation

    Use for:
    - "How do we position against [competitor]?"
    - "What's our differentiation opportunity?"
    - "Analyze this competitor's positioning"
    ''
   COMPETITIVE_ANALYST_PROMPT
   [T_fetch_competitor_homepage, T_build_competitive_frame, T_generate_differentiation_statements, T_analyze_positioning]\<close>


definition PMM_SUBAGENTS :: "subagent list" where
  "PMM_SUBAGENTS =
     [positioning_analyst_subagent,
      messaging_analyst_subagent,
      homepage_analyst_subagent,
      anti_pattern_detector_subagent,
      icp_analyst_subagent,
      competitive_analyst_subagent]"


section \<open>Agent factory (agent.py)\<close>

definition DEFAULT_MODEL :: string where
  "DEFAULT_MODEL = ''claude-sonnet-4-20250514''"

text \<open>\<^verbatim>\<open>ChatAnthropic(model_name=name, max_tokens=20000)\<close>: the handle is its arguments.\<close>

record chat_model =
  model_name :: string
  max_tokens :: nat

definition get_model :: "string option \<Rightarrow> chat_model" where
  "get_model = (\<lambda>model_name. chat_model.make (py_or model_name DEFAULT_MODEL) 20000)"

text \<open>
  \<^verbatim>\<open>running_in_langgraph_api\<close> is a module-level value, read once from the process
  environment. The model takes the environment variable as an argument.
\<close>

definition running_in_langgraph_api :: "string option \<Rightarrow> bool" where
  "running_in_langgraph_api LANGGRAPH_API_URL = (LANGGRAPH_API_URL \<noteq> None)"

text \<open>
  \<^verbatim>\<open>create_pmm_agent\<close> assembles the keyword arguments of \<^verbatim>\<open>create_deep_agent\<close> and
  returns what that constructor returns. The constructor belongs to the agent runtime;
  the model returns the arguments handed to it. \<^verbatim>\<open>checkpointer\<close> is \<^verbatim>\<open>True\<close> or
  \<^verbatim>\<open>None\<close>; \<^verbatim>\<open>interrupt_on\<close> is a dictionary literal, kept as the list of its items.
\<close>

record deep_agent_args =
  model :: chat_model
  tools :: "tool list"
  subagents :: "subagent list"
  system_prompt :: prompt
  checkpointer :: "bool option"
  interrupt_on :: "(string \<times> bool) list"

definition create_pmm_agent ::
  "string option \<Rightarrow> string option \<Rightarrow> string option \<Rightarrow> bool option \<Rightarrow> bool option
     \<Rightarrow> deep_agent_args" where
  "create_pmm_agent =
     (\<lambda>LANGGRAPH_API_URL model mode_arg use_memory_arg include_subagents_arg.
      let mode = arg_or_default ''full'' mode_arg;
          use_memory = arg_or_default True use_memory_arg;
          include_subagents = arg_or_default True include_subagents_arg;
          tools = (if mode = ''evaluate'' then EVALUATION_TOOLS @ WEB_TOOLS
                   else if mode = ''create'' then CREATION_TOOLS
                   else ALL_TOOLS);
          subagents = (if include_subagents then PMM_SUBAGENTS else []);
          model_instance = get_model model
      in deep_agent_args.make
           model_instance
           tools
           subagents
           PMM_EVALUATOR_SYSTEM_PROMPT
           (if use_memory \<and> \<not> running_in_langgraph_api LANGGRAPH_API_URL then Some True else None)
           [(''create_positioning_canvas'', True),
            (''create_messaging_framework'', True),
            (''create_homepage_wireframe'', True)])"

text \<open>The default instance the module creates: \<^verbatim>\<open>agent = create_pmm_agent()\<close>.\<close>

definition agent :: "string option \<Rightarrow> deep_agent_args" where
  "agent LANGGRAPH_API_URL = create_pmm_agent LANGGRAPH_API_URL None None None None"


section \<open>Validation at construction (models/evaluation.py)\<close>

text \<open>
  Every record of the data model is a pydantic \<^verbatim>\<open>BaseModel\<close>. The constraints that
  can fail at construction are the two the source declares: the bounds
  \<^verbatim>\<open>ge=0, le=100\<close> of a score, and the closed value set of a \<^verbatim>\<open>Literal\<close>.
  An argument with a default is an option: \<open>None\<close> stands for leaving it out.
\<close>

definition check_ge_le :: "string \<Rightarrow> int \<Rightarrow> int \<Rightarrow> int \<Rightarrow> validation_error list" where
  "check_ge_le field lo hi v =
     (if v < lo then [(field, greater_than_equal)]
      else if hi < v then [(field, less_than_equal)]
      else [])"

text \<open>\<^verbatim>\<open>Field(..., ge=0, le=100)\<close>\<close>

definition check_score :: "string \<Rightarrow> int \<Rightarrow> validation_error list" where
  "check_score field v = check_ge_le field 0 100 v"

text \<open>The range a score is documented to lie in, both ends included.\<close>

definition valid_score :: "int \<Rightarrow> bool" where
  "valid_score v = (0 \<le> v \<and> v \<le> 100)"


subsection \<open>Positioning models\<close>

definition ALTERNATIVE_TYPES :: "string list" where
  "ALTERNATIVE_TYPES =
     [''direct_competitor'', ''manual_process'', ''status_quo'', ''homegrown'', ''spreadsheets'']"

record CompetitiveAlternative =
  alternative_type :: string
  name :: string
  pain_points :: "string list"
  is_explicit :: bool

definition CompetitiveAlternative_init ::
  "string \<Rightarrow> string \<Rightarrow> string list \<Rightarrow> bool \<Rightarrow> validation_error list + CompetitiveAlternative" where
  "CompetitiveAlternative_init =
     (\<lambda>alternative_type name pain_points is_explicit.
     validated
       (check_literal ''alternative_type'' ALTERNATIVE_TYPES alternative_type)
       (CompetitiveAlternative.make alternative_type name pain_points is_explicit))"

record TargetCustomer =
  role_title :: "string option"
  company_type :: "string option"
  company_size :: "string option"
  industry :: "string option"
  situation_trigger :: "string option"
  specificity_score :: int

definition TargetCustomer_init ::
  "string option \<Rightarrow> string option \<Rightarrow> string option \<Rightarrow> string option \<Rightarrow> string option \<Rightarrow> int
     \<Rightarrow> validation_error list + TargetCustomer" where
  "TargetCustomer_init =
     (\<lambda>role_title company_type company_size industry situation_trigger specificity_score.
     validated
       (check_score ''specificity_score'' specificity_score)
       (TargetCustomer.make role_title company_type company_size industry situation_trigger
          specificity_score))"

record Differentiation =
  unique_approach :: "string option"
  key_capability :: "string option"
  is_defensible :: bool
  is_meaningful :: bool
  could_competitor_say_same :: bool

definition Differentiation_init ::
  "string option \<Rightarrow> string option \<Rightarrow> bool \<Rightarrow> bool \<Rightarrow> bool
     \<Rightarrow> validation_error list + Differentiation" where
  "Differentiation_init =
     (\<lambda>unique_approach key_capability is_defensible is_meaningful could_competitor_say_same.
     validated []
       (Differentiation.make unique_approach key_capability is_defensible is_meaningful
          could_competitor_say_same))"

definition STRATEGY_TYPES :: "string list" where
  "STRATEGY_TYPES = [''category_based'', ''use_case_based'', ''unclear'']"

record PositioningStrategy =
  strategy_type :: string
  category_or_use_case :: "string option"
  competitive_frame_score :: int
  target_audience_score :: int
  differentiation_score :: int
  problem_clarity_score :: int

definition PositioningStrategy_init ::
  "string \<Rightarrow> string option \<Rightarrow> int \<Rightarrow> int \<Rightarrow> int \<Rightarrow> int
     \<Rightarrow> validation_error list + PositioningStrategy" where
  "PositioningStrategy_init =
     (\<lambda>strategy_type category_or_use_case competitive_frame_score target_audience_score
       differentiation_score problem_clarity_score.
     validated
       (check_literal ''strategy_type'' STRATEGY_TYPES strategy_type
        @ check_score ''competitive_frame_score'' competitive_frame_score
        @ check_score ''target_audience_score'' target_audience_score
        @ check_score ''differentiation_score'' differentiation_score
        @ check_score ''problem_clarity_score'' problem_clarity_score)
       (PositioningStrategy.make strategy_type category_or_use_case competitive_frame_score
          target_audience_score differentiation_score problem_clarity_score))"

record PositioningAnalysis =
  target_customer :: TargetCustomer
  competitive_alternative :: "CompetitiveAlternative option"
  differentiation :: Differentiation
  strategy :: PositioningStrategy
  overall_score :: int
  strengths :: "string list"
  weaknesses :: "string list"
  refusing_to_pigeonhole :: bool
  positioning_on_outcomes_only :: bool
  platform_before_point_solution :: bool
  no_competitive_frame :: bool

definition PositioningAnalysis_init ::
  "TargetCustomer \<Rightarrow> CompetitiveAlternative option \<Rightarrow> Differentiation \<Rightarrow> PositioningStrategy
     \<Rightarrow> int \<Rightarrow> string list option \<Rightarrow> string list option
     \<Rightarrow> bool option \<Rightarrow> bool option \<Rightarrow> bool option \<Rightarrow> bool option
     \<Rightarrow> validation_error list + PositioningAnalysis" where
  "PositioningAnalysis_init =
     (\<lambda>target_customer competitive_alternative differentiation strategy overall_score
       strengths weaknesses refusing_to_pigeonhole positioning_on_outcomes_only
       platform_before_point_solution no_competitive_frame.
     validated
       (check_score ''overall_score'' overall_score)
       (PositioningAnalysis.make target_customer competitive_alternative differentiation
          strategy overall_score
          (arg_or_default [] strengths)
          (arg_or_default [] weaknesses)
          (arg_or_default False refusing_to_pigeonhole)
          (arg_or_default False positioning_on_outcomes_only)
          (arg_or_default False platform_before_point_solution)
          (arg_or_default False no_competitive_frame)))"


subsection \<open>Messaging models\<close>

definition LAYER_NAMES :: "string list" where
  "LAYER_NAMES =
     [''positioning_statement'', ''value_proposition'', ''key_messages'', ''proof_points'',
      ''micro_copy'']"

record MessagingLayer =
  layer_name :: string
  present :: bool
  quality_score :: int
  content_found :: "string option"
  issues :: "string list"

definition MessagingLayer_init ::
  "string \<Rightarrow> bool \<Rightarrow> int \<Rightarrow> string option \<Rightarrow> string list option
     \<Rightarrow> validation_error list + MessagingLayer" where
  "MessagingLayer_init =
     (\<lambda>layer_name present quality_score content_found issues.
     validated
       (check_literal ''layer_name'' LAYER_NAMES layer_name
        @ check_score ''quality_score'' quality_score)
       (MessagingLayer.make layer_name present quality_score content_found
          (arg_or_default [] issues)))"

record MessagingHouse =
  value_proposition :: "string option"
  pillars :: "string list"
  proof_points_per_pillar :: "(string \<times> string list) list"
  foundation_defined :: bool
  structure_score :: int

definition MessagingHouse_init ::
  "string option \<Rightarrow> string list option \<Rightarrow> (string \<times> string list) list option \<Rightarrow> bool \<Rightarrow> int
     \<Rightarrow> validation_error list + MessagingHouse" where
  "MessagingHouse_init =
     (\<lambda>value_proposition pillars proof_points_per_pillar foundation_defined structure_score.
     validated
       (check_score ''structure_score'' structure_score)
       (MessagingHouse.make value_proposition
          (arg_or_default [] pillars)
          (arg_or_default [] proof_points_per_pillar)
          foundation_defined structure_score))"

record MessagingAnalysis =
  layers :: "MessagingLayer list"
  messaging_house :: MessagingHouse
  clarity_score :: int
  specificity_score :: int
  benefit_orientation_score :: int
  feature_dumping :: bool
  jargon_buzzwords :: "string list"
  clever_over_clear :: bool
  saying_everything :: bool
  no_specificity :: bool
  overall_score :: int

definition MessagingAnalysis_init ::
  "MessagingLayer list \<Rightarrow> MessagingHouse \<Rightarrow> int \<Rightarrow> int \<Rightarrow> int
     \<Rightarrow> bool option \<Rightarrow> string list option \<Rightarrow> bool option \<Rightarrow> bool option \<Rightarrow> bool option \<Rightarrow> int
     \<Rightarrow> validation_error list + MessagingAnalysis" where
  "MessagingAnalysis_init =
     (\<lambda>layers messaging_house clarity_score specificity_score benefit_orientation_score
       feature_dumping jargon_buzzwords clever_over_clear saying_everything no_specificity
       overall_score.
     validated
       (check_score ''clarity_score'' clarity_score
        @ check_score ''specificity_score'' specificity_score
        @ check_score ''benefit_orientation_score'' benefit_orientation_score
        @ check_score ''overall_score'' overall_score)
       (MessagingAnalysis.make layers messaging_house clarity_score specificity_score
          benefit_orientation_score
          (arg_or_default False feature_dumping)
          (arg_or_default [] jargon_buzzwords)
          (arg_or_default False clever_over_clear)
          (arg_or_default False saying_everything)
          (arg_or_default False no_specificity)
          overall_score))"


subsection \<open>Homepage and asset models\<close>

definition CLARITY_LEVELS :: "string list" where
  "CLARITY_LEVELS = [''clear'', ''partial'', ''unclear'']"

record FiveSecondTest =
  what_they_do :: string
  who_its_for :: string
  whats_different :: string
  what_to_do_next :: string
  passed :: bool
  first_impression_notes :: string

text \<open>
  The last field is \<^verbatim>\<open>notes\<close> in the source; the name is reserved in theory
  text, so the record calls it \<open>first_impression_notes\<close> after the field's description.
\<close>

definition FiveSecondTest_init ::
  "string \<Rightarrow> string \<Rightarrow> string \<Rightarrow> string \<Rightarrow> bool \<Rightarrow> string
     \<Rightarrow> validation_error list + FiveSecondTest" where
  "FiveSecondTest_init =
     (\<lambda>what_they_do who_its_for whats_different what_to_do_next passed
       first_impression_notes.
     validated
       (check_literal ''what_they_do'' CLARITY_LEVELS what_they_do
        @ check_literal ''who_its_for'' CLARITY_LEVELS who_its_for
        @ check_literal ''whats_different'' CLARITY_LEVELS whats_different
        @ check_literal ''what_to_do_next'' CLARITY_LEVELS what_to_do_next)
       (FiveSecondTest.make what_they_do who_its_for whats_different what_to_do_next passed
          first_impression_notes))"

record HeroSection =
  headline :: "string option"
  subheadline :: "string option"
  cta_text :: "string option"
  social_proof_present :: bool
  headline_clarity_score :: int
  cta_clarity_score :: int

definition HeroSection_init ::
  "string option \<Rightarrow> string option \<Rightarrow> string option \<Rightarrow> bool \<Rightarrow> int \<Rightarrow> int
     \<Rightarrow> validation_error list + HeroSection" where
  "HeroSection_init =
     (\<lambda>headline subheadline cta_text social_proof_present headline_clarity_score
       cta_clarity_score.
     validated
       (check_score ''headline_clarity_score'' headline_clarity_score
        @ check_score ''cta_clarity_score'' cta_clarity_score)
       (HeroSection.make headline subheadline cta_text social_proof_present
          headline_clarity_score cta_clarity_score))"

record SocialProof =
  logos_present :: bool
  logos_recognizable :: bool
  testimonials_present :: bool
  testimonials_have_names_titles :: bool
  metrics_present :: bool
  specific_results :: bool
  overall_score :: int

definition SocialProof_init ::
  "bool \<Rightarrow> bool \<Rightarrow> bool \<Rightarrow> bool \<Rightarrow> bool \<Rightarrow> bool \<Rightarrow> int
     \<Rightarrow> validation_error list + SocialProof" where
  "SocialProof_init =
     (\<lambda>logos_present logos_recognizable testimonials_present testimonials_have_names_titles
       metrics_present specific_results overall_score.
     validated
       (check_score ''overall_score'' overall_score)
       (SocialProof.make logos_present logos_recognizable testimonials_present
          testimonials_have_names_titles metrics_present specific_results overall_score))"

record HomepageAnalysis =
  five_second_test :: FiveSecondTest
  hero :: HeroSection
  social_proof :: SocialProof
  information_hierarchy_score :: int
  scannable :: bool
  cta_count :: int
  primary_cta_clear :: bool
  unclear_hero :: bool
  too_many_ctas :: bool
  missing_social_proof :: bool
  wall_of_text :: bool
  stock_photos :: bool
  overall_score :: int

definition HomepageAnalysis_init ::
  "FiveSecondTest \<Rightarrow> HeroSection \<Rightarrow> SocialProof \<Rightarrow> int \<Rightarrow> bool \<Rightarrow> int \<Rightarrow> bool
     \<Rightarrow> bool option \<Rightarrow> bool option \<Rightarrow> bool option \<Rightarrow> bool option \<Rightarrow> bool option \<Rightarrow> int
     \<Rightarrow> validation_error list + HomepageAnalysis" where
  "HomepageAnalysis_init =
     (\<lambda>five_second_test hero social_proof information_hierarchy_score scannable cta_count
       primary_cta_clear unclear_hero too_many_ctas missing_social_proof wall_of_text
       stock_photos overall_score.
     validated
       (check_score ''information_hierarchy_score'' information_hierarchy_score
        @ check_score ''overall_score'' overall_score)
       (HomepageAnalysis.make five_second_test hero social_proof
          information_hierarchy_score scannable cta_count primary_cta_clear
          (arg_or_default False unclear_hero)
          (arg_or_default False too_many_ctas)
          (arg_or_default False missing_social_proof)
          (arg_or_default False wall_of_text)
          (arg_or_default False stock_photos)
          overall_score))"


subsection \<open>Issue tracking\<close>

definition ISSUE_CATEGORIES :: "string list" where
  "ISSUE_CATEGORIES = [''positioning'', ''messaging'', ''homepage'', ''icp'', ''gtm'']"

record PMMIssue =
  category :: string
  severity :: Severity
  issue :: string
  why_it_matters :: string
  recommendation :: string
  suggested_rewrite :: "string option"
  location :: "string option"

definition PMMIssue_init ::
  "string \<Rightarrow> Severity \<Rightarrow> string \<Rightarrow> string \<Rightarrow> string \<Rightarrow> string option \<Rightarrow> string option
     \<Rightarrow> validation_error list + PMMIssue" where
  "PMMIssue_init =
     (\<lambda>category severity issue why_it_matters recommendation suggested_rewrite location.
     validated
       (check_literal ''category'' ISSUE_CATEGORIES category)
       (PMMIssue.make category severity issue why_it_matters recommendation
          suggested_rewrite location))"

definition RESULT_ASSET_TYPES :: "string list" where
  "RESULT_ASSET_TYPES =
     [''homepage'', ''landing_page'', ''sales_deck'', ''email'', ''ad'', ''other'']"

record PMMEvaluationResult =
  asset_type :: string
  asset_url :: "string option"
  positioning :: PositioningAnalysis
  messaging :: MessagingAnalysis
  homepage :: "HomepageAnalysis option"
  critical_issues :: "PMMIssue list"
  high_priority_issues :: "PMMIssue list"
  medium_issues :: "PMMIssue list"
  low_issues :: "PMMIssue list"
  strengths :: "string list"
  overall_score :: int
  ready_to_ship :: bool
  executive_summary :: string
  anti_patterns_detected :: "string list"

definition PMMEvaluationResult_init ::
  "string \<Rightarrow> string option \<Rightarrow> PositioningAnalysis \<Rightarrow> MessagingAnalysis
     \<Rightarrow> HomepageAnalysis option
     \<Rightarrow> PMMIssue list option \<Rightarrow> PMMIssue list option \<Rightarrow> PMMIssue list option
     \<Rightarrow> PMMIssue list option \<Rightarrow> string list option \<Rightarrow> int \<Rightarrow> bool option \<Rightarrow> string
     \<Rightarrow> string list option
     \<Rightarrow> validation_error list + PMMEvaluationResult" where
  "PMMEvaluationResult_init =
     (\<lambda>asset_type asset_url positioning messaging homepage critical_issues
       high_priority_issues medium_issues low_issues strengths overall_score ready_to_ship
       executive_summary anti_patterns_detected.
     validated
       (check_literal ''asset_type'' RESULT_ASSET_TYPES asset_type
        @ check_score ''overall_score'' overall_score)
       (PMMEvaluationResult.make asset_type asset_url positioning messaging homepage
          (arg_or_default [] critical_issues)
          (arg_or_default [] high_priority_issues)
          (arg_or_default [] medium_issues)
          (arg_or_default [] low_issues)
          (arg_or_default [] strengths)
          overall_score
          (arg_or_default False ready_to_ship)
          executive_summary
          (arg_or_default [] anti_patterns_detected)))"


subsection \<open>Positioning canvas\<close>

definition CANVAS_ALTERNATIVE_TYPES :: "string list" where
  "CANVAS_ALTERNATIVE_TYPES =
     [''direct_competitor'', ''manual_process'', ''status_quo'', ''homegrown'']"

definition POSITIONING_APPROACHES :: "string list" where
  "POSITIONING_APPROACHES = [''category_based'', ''use_case_based'']"

record PositioningCanvas =
  role_title :: string
  company_type :: string
  company_size :: string
  industry :: string
  situation_trigger :: string
  primary_alternative :: string
  alternative_type :: string
  pain_point_1 :: string
  pain_point_2 :: string
  pain_point_3 :: string
  key_differentiator :: string
  methodology :: string
  unique_capability :: string
  primary_benefit :: string
  supporting_benefit :: string
  proof_point :: string
  positioning_approach :: string
  category_or_use_case :: string
  internal_positioning_statement :: string
  differentiation_summary :: string
  homepage_one_liner :: string
  is_validated :: bool
  validation_notes :: "string option"

text \<open>
  The constructor takes the twenty-one required strings in the order of the fields, then
  the optional \<^verbatim>\<open>is_validated\<close> (a \<^typ>\<open>bool option\<close>) and \<^verbatim>\<open>validation_notes\<close>
  (a \<^typ>\<open>string option\<close>), and returns \<^typ>\<open>validation_error list + PositioningCanvas\<close>.
\<close>

definition PositioningCanvas_init where
  "PositioningCanvas_init =
     (\<lambda>role_title company_type company_size industry situation_trigger primary_alternative
       alternative_type pain_point_1 pain_point_2 pain_point_3 key_differentiator
       methodology unique_capability primary_benefit supporting_benefit proof_point
       positioning_approach category_or_use_case internal_positioning_statement
       differentiation_summary homepage_one_liner is_validated validation_notes.
     validated
       (check_literal ''alternative_type'' CANVAS_ALTERNATIVE_TYPES alternative_type
        @ check_literal ''positioning_approach'' POSITIONING_APPROACHES positioning_approach)
       (PositioningCanvas.make role_title company_type company_size industry
          situation_trigger primary_alternative alternative_type pain_point_1 pain_point_2
          pain_point_3 key_differentiator methodology unique_capability primary_benefit
          supporting_benefit proof_point positioning_approach category_or_use_case
          internal_positioning_statement differentiation_summary homepage_one_liner
          (arg_or_default False is_validated)
          validation_notes))"



section \<open>Properties\<close>

subsection \<open>Enumerations and the agent factory\<close>

lemma Severity_UNIV: "(UNIV :: Severity set) = {LOW, MEDIUM, HIGH, CRITICAL}"
proof -
  have "x \<in> {LOW, MEDIUM, HIGH, CRITICAL}" for x :: Severity
    by (cases x) simp_all
  then show ?thesis by blast
qed

lemma ScoreLevel_UNIV: "(UNIV :: ScoreLevel set) = {FAILING, POOR, NEEDS_WORK, GOOD, EXCELLENT}"
proof -
  have "x \<in> {FAILING, POOR, NEEDS_WORK, GOOD, EXCELLENT}" for x :: ScoreLevel
    by (cases x) simp_all
  then show ?thesis by blast
qed

lemma Severity_value_inj: "(Severity_value a = Severity_value b) = (a = b)"
  by (cases a; cases b) simp_all

lemma ScoreLevel_value_inj: "(ScoreLevel_value a = ScoreLevel_value b) = (a = b)"
  by (cases a; cases b) simp_all

text \<open>
  Claim C8. \<^verbatim>\<open>Severity\<close> has exactly the four members LOW, MEDIUM, HIGH, CRITICAL with
  the values 1, 2, 3, 4, and \<^verbatim>\<open>ScoreLevel\<close> exactly the five members FAILING, POOR,
  NEEDS_WORK, GOOD, EXCELLENT with the values 0, 25, 50, 75, 100. In each, the declared
  order is strictly increasing, any two members are comparable, and two members with the
  same value are the same member: the order is total and follows the numeric value.
\<close>

theorem enums_members_and_order:
  "(UNIV :: Severity set) = set Severity_members
   \<and> distinct Severity_members
   \<and> length Severity_members = 4
   \<and> map Severity_value Severity_members = [1, 2, 3, 4]
   \<and> Severity_less LOW MEDIUM \<and> Severity_less MEDIUM HIGH \<and> Severity_less HIGH CRITICAL
   \<and> (Severity_less a b \<or> a = b \<or> Severity_less b a)
   \<and> (Severity_value a = Severity_value b) = (a = b)
   \<and> (UNIV :: ScoreLevel set) = set ScoreLevel_members
   \<and> distinct ScoreLevel_members
   \<and> length ScoreLevel_members = 5
   \<and> map ScoreLevel_value ScoreLevel_members = [0, 25, 50, 75, 100]
   \<and> ScoreLevel_less FAILING POOR \<and> ScoreLevel_less POOR NEEDS_WORK
   \<and> ScoreLevel_less NEEDS_WORK GOOD \<and> ScoreLevel_less GOOD EXCELLENT
   \<and> (ScoreLevel_less c d \<or> c = d \<or> ScoreLevel_less d c)
   \<and> (ScoreLevel_value c = ScoreLevel_value d) = (c = d)"
proof -
  have sev: "Severity_less a b \<or> a = b \<or> Severity_less b a"
    using Severity_value_inj [of a b] unfolding Severity_less_def by linarith
  have lev: "ScoreLevel_less c d \<or> c = d \<or> ScoreLevel_less d c"
    using ScoreLevel_value_inj [of c d] unfolding ScoreLevel_less_def by linarith
  show ?thesis
    using sev lev
    by (simp add: Severity_UNIV ScoreLevel_UNIV Severity_members_def ScoreLevel_members_def
        Severity_less_def ScoreLevel_less_def Severity_value_inj ScoreLevel_value_inj)
qed

lemma create_pmm_agent_tools:
  "deep_agent_args.tools (create_pmm_agent e m mode um sa) =
     (if arg_or_default ''full'' mode = ''evaluate'' then EVALUATION_TOOLS @ WEB_TOOLS
      else if arg_or_default ''full'' mode = ''create'' then CREATION_TOOLS
      else ALL_TOOLS)"
  by (simp add: create_pmm_agent_def Let_def deep_agent_args.make_def)

text \<open>
  Claim C4. Mode \<^verbatim>\<open>evaluate\<close> hands on the nine evaluation tools followed by the four
  web tools, mode \<^verbatim>\<open>create\<close> the four creation tools and nothing else, and mode
  \<^verbatim>\<open>full\<close> (also the default) the three groups together, seventeen distinct tools.
  This holds whatever the environment, the model name and the two toggles are.
\<close>

theorem mode_selects_tools:
  "deep_agent_args.tools (create_pmm_agent e m (Some ''evaluate'') um sa) =
     [T_run_five_second_test, T_analyze_positioning, T_analyze_messaging,
      T_analyze_homepage_structure, T_detect_anti_patterns, T_generate_rewrite,
      T_build_competitive_frame, T_analyze_icp, T_run_complete_pmm_audit,
      T_fetch_homepage, T_fetch_competitor_homepage, T_analyze_landing_page,
      T_scrape_social_proof]
   \<and> deep_agent_args.tools (create_pmm_agent e m (Some ''evaluate'') um sa) =
       EVALUATION_TOOLS @ WEB_TOOLS
   \<and> length EVALUATION_TOOLS = 9 \<and> length WEB_TOOLS = 4
   \<and> deep_agent_args.tools (create_pmm_agent e m (Some ''create'') um sa) =
       [T_create_positioning_canvas, T_create_messaging_framework,
        T_create_homepage_wireframe, T_generate_differentiation_statements]
   \<and> deep_agent_args.tools (create_pmm_agent e m (Some ''create'') um sa) = CREATION_TOOLS
   \<and> deep_agent_args.tools (create_pmm_agent e m (Some ''full'') um sa) =
       EVALUATION_TOOLS @ WEB_TOOLS @ CREATION_TOOLS
   \<and> deep_agent_args.tools (create_pmm_agent e m None um sa) =
       EVALUATION_TOOLS @ WEB_TOOLS @ CREATION_TOOLS
   \<and> set (deep_agent_args.tools (create_pmm_agent e m (Some ''full'') um sa)) =
       set EVALUATION_TOOLS \<union> set WEB_TOOLS \<union> set CREATION_TOOLS
   \<and> distinct (EVALUATION_TOOLS @ WEB_TOOLS @ CREATION_TOOLS)"
proof -
  have un: "set (deep_agent_args.tools (create_pmm_agent e m (Some ''full'') um sa)) =
       set EVALUATION_TOOLS \<union> set WEB_TOOLS \<union> set CREATION_TOOLS"
    by (simp add: create_pmm_agent_tools arg_or_default_def ALL_TOOLS_def Un_assoc)
  show ?thesis
    unfolding un
    by (simp add: create_pmm_agent_tools arg_or_default_def ALL_TOOLS_def EVALUATION_TOOLS_def
        WEB_TOOLS_def CREATION_TOOLS_def)
qed

lemma create_pmm_agent_interrupt_on:
  "interrupt_on (create_pmm_agent e m mode um sa) =
     [(''create_positioning_canvas'', True),
      (''create_messaging_framework'', True),
      (''create_homepage_wireframe'', True)]"
  by (simp add: create_pmm_agent_def Let_def deep_agent_args.make_def)

text \<open>
  Claim C10. The confirmation map handed to the agent constructor is the same for every
  mode and every setting of the toggles: its keys are \<^verbatim>\<open>create_positioning_canvas\<close>,
  \<^verbatim>\<open>create_messaging_framework\<close> and \<^verbatim>\<open>create_homepage_wireframe\<close>, each marked
  \<^verbatim>\<open>True\<close>. In mode \<^verbatim>\<open>evaluate\<close> no tool handed on carries one of these names.
\<close>

theorem interrupt_on_is_fixed:
  "interrupt_on (create_pmm_agent e m mode um sa) =
     [(''create_positioning_canvas'', True),
      (''create_messaging_framework'', True),
      (''create_homepage_wireframe'', True)]
   \<and> {k. map_of (interrupt_on (create_pmm_agent e m mode um sa)) k = Some True} =
       {''create_positioning_canvas'', ''create_messaging_framework'',
        ''create_homepage_wireframe''}
   \<and> set (map tool_name (deep_agent_args.tools (create_pmm_agent e m (Some ''evaluate'') um sa)))
       \<inter> {''create_positioning_canvas'', ''create_messaging_framework'',
            ''create_homepage_wireframe''} = {}"
proof -
  have keys: "{k. map_of [(''create_positioning_canvas'', True),
      (''create_messaging_framework'', True),
      (''create_homepage_wireframe'', True)] k = Some True} =
       {''create_positioning_canvas'', ''create_messaging_framework'',
        ''create_homepage_wireframe''}"
    by (auto split: if_splits)
  have ev: "set (map tool_name (deep_agent_args.tools (create_pmm_agent e m (Some ''evaluate'') um sa)))
       \<inter> {''create_positioning_canvas'', ''create_messaging_framework'',
            ''create_homepage_wireframe''} = {}"
    by (simp add: create_pmm_agent_tools arg_or_default_def EVALUATION_TOOLS_def WEB_TOOLS_def)
  show ?thesis
    unfolding create_pmm_agent_interrupt_on keys using ev by simp
qed


subsection \<open>Validation of the data model\<close>


lemma check_score_Nil: "(check_score f v = []) = valid_score v"
  by (auto simp: check_score_def check_ge_le_def valid_score_def)

lemma check_literal_Nil: "(check_literal f allowed v = []) = (v \<in> set allowed)"
  by (simp add: check_literal_def)

lemma isl_validated: "isl (validated errs r) = (errs \<noteq> [])"
  by (simp add: validated_def)

text \<open>
  Claim C2. For each of the ten record types with a score field, construction fails with
  a validation error exactly when it is not the case that every score given lies in
  [0,100] (and, where the record also has a closed-set field, that this field holds one of
  its values): with the other fields valid, an integer score in [0,100] is accepted and
  one outside is refused. The score fields are \<^verbatim>\<open>TargetCustomer.specificity_score\<close>, the
  four sub-scores of \<^verbatim>\<open>PositioningStrategy\<close>, \<^verbatim>\<open>quality_score\<close>,
  \<^verbatim>\<open>structure_score\<close>, the clarity, specificity and benefit-orientation scores, the
  headline and CTA clarity scores, \<^verbatim>\<open>information_hierarchy_score\<close>, and every
  \<^verbatim>\<open>overall_score\<close>.
\<close>

theorem score_fields_validated:
  "isl (TargetCustomer_init a1 a2 a3 a4 a5 s) = (\<not> valid_score s)
   \<and> isl (PositioningStrategy_init t b1 s1 s2 s3 s4) =
       (\<not> (t \<in> set STRATEGY_TYPES \<and> valid_score s1 \<and> valid_score s2 \<and> valid_score s3
            \<and> valid_score s4))
   \<and> isl (PositioningAnalysis_init c1 c2 c3 c4 s5 c5 c6 c7 c8 c9 c10) = (\<not> valid_score s5)
   \<and> isl (MessagingLayer_init l d1 s6 d2 d3) =
       (\<not> (l \<in> set LAYER_NAMES \<and> valid_score s6))
   \<and> isl (MessagingHouse_init e1 e2 e3 e4 s7) = (\<not> valid_score s7)
   \<and> isl (MessagingAnalysis_init f1 f2 s8 s9 s10 f3 f4 f5 f6 f7 s11) =
       (\<not> (valid_score s8 \<and> valid_score s9 \<and> valid_score s10 \<and> valid_score s11))
   \<and> isl (HeroSection_init g1 g2 g3 g4 s12 s13) = (\<not> (valid_score s12 \<and> valid_score s13))
   \<and> isl (SocialProof_init h1 h2 h3 h4 h5 h6 s14) = (\<not> valid_score s14)
   \<and> isl (HomepageAnalysis_init i1 i2 i3 s15 i4 i5 i6 i7 i8 i9 i10 i11 s16) =
       (\<not> (valid_score s15 \<and> valid_score s16))
   \<and> isl (PMMEvaluationResult_init u j1 j2 j3 j4 j5 j6 j7 j8 j9 s17 j10 j11 j12) =
       (\<not> (u \<in> set RESULT_ASSET_TYPES \<and> valid_score s17))"
  by (simp add: TargetCustomer_init_def PositioningStrategy_init_def
      PositioningAnalysis_init_def MessagingLayer_init_def MessagingHouse_init_def
      MessagingAnalysis_init_def HeroSection_init_def SocialProof_init_def
      HomepageAnalysis_init_def PMMEvaluationResult_init_def
      isl_validated check_score_Nil check_literal_Nil)

lemma CompetitiveAlternative_init_isl:
  "isl (CompetitiveAlternative_init t n pp ex) = (t \<notin> set ALTERNATIVE_TYPES)"
  by (simp add: CompetitiveAlternative_init_def isl_validated check_literal_Nil)

lemma PositioningCanvas_init_isl:
  "isl (PositioningCanvas_init a1 a2 a3 a4 a5 a6 t a8 a9 a10 a11 a12 a13 a14 a15 a16 pa a18 a19
          a20 a21 a22 a23) =
     (\<not> (t \<in> set CANVAS_ALTERNATIVE_TYPES \<and> pa \<in> set POSITIONING_APPROACHES))"
  by (simp add: PositioningCanvas_init_def isl_validated check_literal_Nil)

text \<open>
  Claim C6, as stated, fails: a \<^verbatim>\<open>PositioningCanvas\<close> whose other fields are valid is
  refused when its \<^verbatim>\<open>alternative_type\<close> is \<^verbatim>\<open>spreadsheets\<close>, a value that
  \<^verbatim>\<open>CompetitiveAlternative\<close> accepts.
\<close>

theorem canvas_rejects_spreadsheets:
  "isl (PositioningCanvas_init ''Head of Finance'' ''B2B SaaS'' ''50-200 employees'' ''Software''
          ''Month-end close takes two weeks'' ''Excel workbooks'' ''spreadsheets''
          ''Manual re-keying'' ''Version conflicts'' ''No audit trail''
          ''Live ledger sync'' ''Continuous close'' ''Automatic reconciliation''
          ''Close in two days'' ''Fewer errors'' ''40 customers closed faster''
          ''category_based'' ''Accounting automation''
          ''For finance leads'' ''Unlike spreadsheets, we sync'' ''Acme: continuous close''
          None None)
   \<and> \<not> isl (CompetitiveAlternative_init ''spreadsheets'' ''Excel workbooks''
          [''Manual re-keying''] True)"
  by (simp add: PositioningCanvas_init_isl CompetitiveAlternative_init_isl
      CANVAS_ALTERNATIVE_TYPES_def ALTERNATIVE_TYPES_def)

text \<open>
  Claim C6, amended. \<^verbatim>\<open>CompetitiveAlternative\<close> accepts exactly the five values
  direct_competitor, manual_process, status_quo, homegrown and spreadsheets for
  \<^verbatim>\<open>alternative_type\<close>. \<^verbatim>\<open>PositioningCanvas\<close> accepts exactly the four values
  direct_competitor, manual_process, status_quo and homegrown (with its
  \<^verbatim>\<open>positioning_approach\<close> one of category_based and use_case_based). Each refuses
  every other value at construction.
\<close>

theorem alternative_type_value_sets:
  "isl (CompetitiveAlternative_init t n pp ex) =
     (t \<notin> {''direct_competitor'', ''manual_process'', ''status_quo'', ''homegrown'',
            ''spreadsheets''})
   \<and> isl (PositioningCanvas_init a1 a2 a3 a4 a5 a6 t a8 a9 a10 a11 a12 a13 a14 a15 a16 pa a18
            a19 a20 a21 a22 a23) =
       (\<not> (t \<in> {''direct_competitor'', ''manual_process'', ''status_quo'', ''homegrown''}
            \<and> pa \<in> {''category_based'', ''use_case_based''}))"
  by (simp add: PositioningCanvas_init_isl CompetitiveAlternative_init_isl
      CANVAS_ALTERNATIVE_TYPES_def ALTERNATIVE_TYPES_def POSITIONING_APPROACHES_def)


subsection \<open>The template operations\<close>

lemma run_five_second_test_instructions_nonempty: "run_five_second_test_instructions  \<noteq> []"
  by (simp add: run_five_second_test_instructions_def)

lemma run_five_second_test_members:
  "map_of (run_five_second_test x1 x2) ''task'' = Some (JString ''five_second_test'')"
  "map_of (run_five_second_test x1 x2) ''instructions'' = Some (JString (run_five_second_test_instructions))"
  "map_of (run_five_second_test x1 x2) ''asset_content'' = Some (JString x1)"
  "map_of (run_five_second_test x1 x2) ''asset_type'' = Some (JString (arg_or_default ''homepage'' x2))"
  by (simp_all add: run_five_second_test_def)

lemma run_five_second_test_instructions_of: "instructions_of (run_five_second_test x1 x2) = run_five_second_test_instructions"
  by (simp add: instructions_of_def run_five_second_test_members)

lemma run_five_second_test_has_task: "has_task_and_instructions (run_five_second_test x1 x2)"
  by (simp add: has_task_and_instructions_def run_five_second_test_members run_five_second_test_instructions_nonempty)

lemma analyze_positioning_instructions_nonempty: "analyze_positioning_instructions  \<noteq> []"
  by (simp add: analyze_positioning_instructions_def)

lemma analyze_positioning_members:
  "map_of (analyze_positioning x1 x2) ''task'' = Some (JString ''positioning_analysis'')"
  "map_of (analyze_positioning x1 x2) ''instructions'' = Some (JString (analyze_positioning_instructions))"
  "map_of (analyze_positioning x1 x2) ''asset_content'' = Some (JString x1)"
  "map_of (analyze_positioning x1 x2) ''company_context'' = Some (json_str_opt x2)"
  by (simp_all add: analyze_positioning_def)

lemma analyze_positioning_instructions_of: "instructions_of (analyze_positioning x1 x2) = analyze_positioning_instructions"
  by (simp add: instructions_of_def analyze_positioning_members)

lemma analyze_positioning_has_task: "has_task_and_instructions (analyze_positioning x1 x2)"
  by (simp add: has_task_and_instructions_def analyze_positioning_members analyze_positioning_instructions_nonempty)

lemma analyze_messaging_instructions_nonempty: "analyze_messaging_instructions  \<noteq> []"
  by (simp add: analyze_messaging_instructions_def)

lemma analyze_messaging_members:
  "map_of (analyze_messaging x1 x2) ''task'' = Some (JString ''messaging_analysis'')"
  "map_of (analyze_messaging x1 x2) ''instructions'' = Some (JString (analyze_messaging_instructions))"
  "map_of (analyze_messaging x1 x2) ''asset_content'' = Some (JString x1)"
  "map_of (analyze_messaging x1 x2) ''target_persona'' = Some (json_str_opt x2)"
  by (simp_all add: analyze_messaging_def)

lemma analyze_messaging_instructions_of: "instructions_of (analyze_messaging x1 x2) = analyze_messaging_instructions"
  by (simp add: instructions_of_def analyze_messaging_members)

lemma analyze_messaging_has_task: "has_task_and_instructions (analyze_messaging x1 x2)"
  by (simp add: has_task_and_instructions_def analyze_messaging_members analyze_messaging_instructions_nonempty)

lemma analyze_homepage_structure_instructions_nonempty: "analyze_homepage_structure_instructions  \<noteq> []"
  by (simp add: analyze_homepage_structure_instructions_def)

lemma analyze_homepage_structure_members:
  "map_of (analyze_homepage_structure x1 x2) ''task'' = Some (JString ''homepage_structure_analysis'')"
  "map_of (analyze_homepage_structure x1 x2) ''instructions'' = Some (JString (analyze_homepage_structure_instructions))"
  "map_of (analyze_homepage_structure x1 x2) ''asset_content'' = Some (JString x1)"
  "map_of (analyze_homepage_structure x1 x2) ''include_screenshots'' = Some (JBool (arg_or_default False x2))"
  by (simp_all add: analyze_homepage_structure_def)

lemma analyze_homepage_structure_instructions_of: "instructions_of (analyze_homepage_structure x1 x2) = analyze_homepage_structure_instructions"
  by (simp add: instructions_of_def analyze_homepage_structure_members)

lemma analyze_homepage_structure_has_task: "has_task_and_instructions (analyze_homepage_structure x1 x2)"
  by (simp add: has_task_and_instructions_def analyze_homepage_structure_members analyze_homepage_structure_instructions_nonempty)

lemma detect_anti_patterns_instructions_nonempty: "detect_anti_patterns_instructions  \<noteq> []"
  by (simp add: detect_anti_patterns_instructions_def)

lemma detect_anti_patterns_members:
  "map_of (detect_anti_patterns x1 x2) ''task'' = Some (JString ''anti_pattern_detection'')"
  "map_of (detect_anti_patterns x1 x2) ''instructions'' = Some (JString (detect_anti_patterns_instructions))"
  "map_of (detect_anti_patterns x1 x2) ''asset_content'' = Some (JString x1)"
  "map_of (detect_anti_patterns x1 x2) ''asset_type'' = Some (JString (arg_or_default ''all'' x2))"
  by (simp_all add: detect_anti_patterns_def)

lemma detect_anti_patterns_instructions_of: "instructions_of (detect_anti_patterns x1 x2) = detect_anti_patterns_instructions"
  by (simp add: instructions_of_def detect_anti_patterns_members)

lemma detect_anti_patterns_has_task: "has_task_and_instructions (detect_anti_patterns x1 x2)"
  by (simp add: has_task_and_instructions_def detect_anti_patterns_members detect_anti_patterns_instructions_nonempty)

lemma generate_rewrite_instructions_nonempty: "generate_rewrite_instructions y1 y2 y3 y4 \<noteq> []"
  by (simp add: generate_rewrite_instructions_def)

lemma generate_rewrite_members:
  "map_of (generate_rewrite x1 x2 x3 x4) ''task'' = Some (JString ''copy_rewrite'')"
  "map_of (generate_rewrite x1 x2 x3 x4) ''instructions'' = Some (JString (generate_rewrite_instructions x1 x2 x3 x4))"
  "map_of (generate_rewrite x1 x2 x3 x4) ''original_copy'' = Some (JString x1)"
  "map_of (generate_rewrite x1 x2 x3 x4) ''issue_type'' = Some (JString x2)"
  by (simp_all add: generate_rewrite_def)

lemma generate_rewrite_instructions_of: "instructions_of (generate_rewrite x1 x2 x3 x4) = generate_rewrite_instructions x1 x2 x3 x4"
  by (simp add: instructions_of_def generate_rewrite_members)

lemma generate_rewrite_has_task: "has_task_and_instructions (generate_rewrite x1 x2 x3 x4)"
  by (simp add: has_task_and_instructions_def generate_rewrite_members generate_rewrite_instructions_nonempty)

lemma build_competitive_frame_instructions_nonempty: "build_competitive_frame_instructions  \<noteq> []"
  by (simp add: build_competitive_frame_instructions_def)

lemma build_competitive_frame_members:
  "map_of (build_competitive_frame x1 x2 x3) ''task'' = Some (JString ''competitive_frame_building'')"
  "map_of (build_competitive_frame x1 x2 x3) ''instructions'' = Some (JString (build_competitive_frame_instructions))"
  "map_of (build_competitive_frame x1 x2 x3) ''product_description'' = Some (JString x1)"
  "map_of (build_competitive_frame x1 x2 x3) ''known_competitors'' = Some (json_list_opt x2)"
  "map_of (build_competitive_frame x1 x2 x3) ''current_positioning'' = Some (json_str_opt x3)"
  by (simp_all add: build_competitive_frame_def)

lemma build_competitive_frame_instructions_of: "instructions_of (build_competitive_frame x1 x2 x3) = build_competitive_frame_instructions"
  by (simp add: instructions_of_def build_competitive_frame_members)

lemma build_competitive_frame_has_task: "has_task_and_instructions (build_competitive_frame x1 x2 x3)"
  by (simp add: has_task_and_instructions_def build_competitive_frame_members build_competitive_frame_instructions_nonempty)

lemma analyze_icp_instructions_nonempty: "analyze_icp_instructions  \<noteq> []"
  by (simp add: analyze_icp_instructions_def)

lemma analyze_icp_members:
  "map_of (analyze_icp x1 x2) ''task'' = Some (JString ''icp_analysis'')"
  "map_of (analyze_icp x1 x2) ''instructions'' = Some (JString (analyze_icp_instructions))"
  "map_of (analyze_icp x1 x2) ''asset_content'' = Some (JString x1)"
  "map_of (analyze_icp x1 x2) ''additional_context'' = Some (json_str_opt x2)"
  by (simp_all add: analyze_icp_def)

lemma analyze_icp_instructions_of: "instructions_of (analyze_icp x1 x2) = analyze_icp_instructions"
  by (simp add: instructions_of_def analyze_icp_members)

lemma analyze_icp_has_task: "has_task_and_instructions (analyze_icp x1 x2)"
  by (simp add: has_task_and_instructions_def analyze_icp_members analyze_icp_instructions_nonempty)

lemma run_complete_pmm_audit_instructions_nonempty: "run_complete_pmm_audit_instructions  \<noteq> []"
  by (simp add: run_complete_pmm_audit_instructions_def)

lemma run_complete_pmm_audit_members:
  "map_of (run_complete_pmm_audit x1 x2 x3 x4) ''task'' = Some (JString ''complete_pmm_audit'')"
  "map_of (run_complete_pmm_audit x1 x2 x3 x4) ''instructions'' = Some (JString (run_complete_pmm_audit_instructions))"
  "map_of (run_complete_pmm_audit x1 x2 x3 x4) ''asset_content'' = Some (JString x1)"
  "map_of (run_complete_pmm_audit x1 x2 x3 x4) ''asset_type'' = Some (JString (arg_or_default ''homepage'' x2))"
  "map_of (run_complete_pmm_audit x1 x2 x3 x4) ''asset_url'' = Some (json_str_opt x3)"
  "map_of (run_complete_pmm_audit x1 x2 x3 x4) ''company_context'' = Some (json_str_opt x4)"
  by (simp_all add: run_complete_pmm_audit_def)

lemma run_complete_pmm_audit_instructions_of: "instructions_of (run_complete_pmm_audit x1 x2 x3 x4) = run_complete_pmm_audit_instructions"
  by (simp add: instructions_of_def run_complete_pmm_audit_members)

lemma run_complete_pmm_audit_has_task: "has_task_and_instructions (run_complete_pmm_audit x1 x2 x3 x4)"
  by (simp add: has_task_and_instructions_def run_complete_pmm_audit_members run_complete_pmm_audit_instructions_nonempty)

lemma fetch_homepage_instructions_nonempty: "fetch_homepage_instructions y1 y2 \<noteq> []"
  by (simp add: fetch_homepage_instructions_def)

lemma fetch_homepage_members:
  "map_of (fetch_homepage x1 x2) ''task'' = Some (JString ''fetch_homepage'')"
  "map_of (fetch_homepage x1 x2) ''instructions'' = Some (JString (fetch_homepage_instructions x1 (arg_or_default ''full'' x2)))"
  "map_of (fetch_homepage x1 x2) ''url'' = Some (JString x1)"
  "map_of (fetch_homepage x1 x2) ''extract_mode'' = Some (JString (arg_or_default ''full'' x2))"
  by (simp_all add: fetch_homepage_def)

lemma fetch_homepage_instructions_of: "instructions_of (fetch_homepage x1 x2) = fetch_homepage_instructions x1 (arg_or_default ''full'' x2)"
  by (simp add: instructions_of_def fetch_homepage_members)

lemma fetch_homepage_has_task: "has_task_and_instructions (fetch_homepage x1 x2)"
  by (simp add: has_task_and_instructions_def fetch_homepage_members fetch_homepage_instructions_nonempty)

lemma fetch_competitor_homepage_instructions_nonempty: "fetch_competitor_homepage_instructions y1 y2 \<noteq> []"
  by (simp add: fetch_competitor_homepage_instructions_def)

lemma fetch_competitor_homepage_members:
  "map_of (fetch_competitor_homepage x1 x2) ''task'' = Some (JString ''competitor_analysis'')"
  "map_of (fetch_competitor_homepage x1 x2) ''instructions'' = Some (JString (fetch_competitor_homepage_instructions x1 x2))"
  "map_of (fetch_competitor_homepage x1 x2) ''competitor_url'' = Some (JString x1)"
  "map_of (fetch_competitor_homepage x1 x2) ''your_url'' = Some (json_str_opt x2)"
  by (simp_all add: fetch_competitor_homepage_def)

lemma fetch_competitor_homepage_instructions_of: "instructions_of (fetch_competitor_homepage x1 x2) = fetch_competitor_homepage_instructions x1 x2"
  by (simp add: instructions_of_def fetch_competitor_homepage_members)

lemma fetch_competitor_homepage_has_task: "has_task_and_instructions (fetch_competitor_homepage x1 x2)"
  by (simp add: has_task_and_instructions_def fetch_competitor_homepage_members fetch_competitor_homepage_instructions_nonempty)

lemma analyze_landing_page_instructions_nonempty: "analyze_landing_page_instructions y1 y2 \<noteq> []"
  by (simp add: analyze_landing_page_instructions_def)

lemma analyze_landing_page_members:
  "map_of (analyze_landing_page x1 x2) ''task'' = Some (JString ''landing_page_analysis'')"
  "map_of (analyze_landing_page x1 x2) ''instructions'' = Some (JString (analyze_landing_page_instructions x1 x2))"
  "map_of (analyze_landing_page x1 x2) ''url'' = Some (JString x1)"
  "map_of (analyze_landing_page x1 x2) ''campaign_context'' = Some (json_str_opt x2)"
  by (simp_all add: analyze_landing_page_def)

lemma analyze_landing_page_instructions_of: "instructions_of (analyze_landing_page x1 x2) = analyze_landing_page_instructions x1 x2"
  by (simp add: instructions_of_def analyze_landing_page_members)

lemma analyze_landing_page_has_task: "has_task_and_instructions (analyze_landing_page x1 x2)"
  by (simp add: has_task_and_instructions_def analyze_landing_page_members analyze_landing_page_instructions_nonempty)

lemma scrape_social_proof_instructions_nonempty: "scrape_social_proof_instructions y1 \<noteq> []"
  by (simp add: scrape_social_proof_instructions_def)

lemma scrape_social_proof_members:
  "map_of (scrape_social_proof x1) ''task'' = Some (JString ''social_proof_inventory'')"
  "map_of (scrape_social_proof x1) ''instructions'' = Some (JString (scrape_social_proof_instructions x1))"
  "map_of (scrape_social_proof x1) ''url'' = Some (JString x1)"
  by (simp_all add: scrape_social_proof_def)

lemma scrape_social_proof_instructions_of: "instructions_of (scrape_social_proof x1) = scrape_social_proof_instructions x1"
  by (simp add: instructions_of_def scrape_social_proof_members)

lemma scrape_social_proof_has_task: "has_task_and_instructions (scrape_social_proof x1)"
  by (simp add: has_task_and_instructions_def scrape_social_proof_members scrape_social_proof_instructions_nonempty)

lemma create_positioning_canvas_instructions_nonempty: "create_positioning_canvas_instructions pr y1 y2 y3 y4 \<noteq> []"
  by (simp add: create_positioning_canvas_instructions_def)

lemma create_positioning_canvas_members:
  "map_of (create_positioning_canvas pr x1 x2 x3 x4) ''task'' = Some (JString ''create_positioning_canvas'')"
  "map_of (create_positioning_canvas pr x1 x2 x3 x4) ''instructions'' = Some (JString (create_positioning_canvas_instructions pr x1 x2 x3 x4))"
  "map_of (create_positioning_canvas pr x1 x2 x3 x4) ''product_description'' = Some (JString x1)"
  "map_of (create_positioning_canvas pr x1 x2 x3 x4) ''target_audience'' = Some (json_str_opt x2)"
  "map_of (create_positioning_canvas pr x1 x2 x3 x4) ''known_competitors'' = Some (json_list_opt x3)"
  "map_of (create_positioning_canvas pr x1 x2 x3 x4) ''unique_capabilities'' = Some (json_list_opt x4)"
  by (simp_all add: create_positioning_canvas_def)

lemma create_positioning_canvas_instructions_of: "instructions_of (create_positioning_canvas pr x1 x2 x3 x4) = create_positioning_canvas_instructions pr x1 x2 x3 x4"
  by (simp add: instructions_of_def create_positioning_canvas_members)

lemma create_positioning_canvas_has_task: "has_task_and_instructions (create_positioning_canvas pr x1 x2 x3 x4)"
  by (simp add: has_task_and_instructions_def create_positioning_canvas_members create_positioning_canvas_instructions_nonempty)

lemma create_messaging_framework_instructions_nonempty: "create_messaging_framework_instructions pr y1 y2 y3 \<noteq> []"
  by (simp add: create_messaging_framework_instructions_def)

lemma create_messaging_framework_members:
  "map_of (create_messaging_framework pr x1 x2 x3) ''task'' = Some (JString ''create_messaging_framework'')"
  "map_of (create_messaging_framework pr x1 x2 x3) ''instructions'' = Some (JString (create_messaging_framework_instructions pr x1 x2 x3))"
  "map_of (create_messaging_framework pr x1 x2 x3) ''positioning_canvas'' = Some (JString x1)"
  "map_of (create_messaging_framework pr x1 x2 x3) ''primary_persona'' = Some (json_str_opt x2)"
  "map_of (create_messaging_framework pr x1 x2 x3) ''secondary_personas'' = Some (json_list_opt x3)"
  by (simp_all add: create_messaging_framework_def)

lemma create_messaging_framework_instructions_of: "instructions_of (create_messaging_framework pr x1 x2 x3) = create_messaging_framework_instructions pr x1 x2 x3"
  by (simp add: instructions_of_def create_messaging_framework_members)

lemma create_messaging_framework_has_task: "has_task_and_instructions (create_messaging_framework pr x1 x2 x3)"
  by (simp add: has_task_and_instructions_def create_messaging_framework_members create_messaging_framework_instructions_nonempty)

lemma create_homepage_wireframe_instructions_nonempty: "create_homepage_wireframe_instructions y1 y2 \<noteq> []"
  by (simp add: create_homepage_wireframe_instructions_def)

lemma create_homepage_wireframe_members:
  "map_of (create_homepage_wireframe x1 x2) ''task'' = Some (JString ''create_homepage_wireframe'')"
  "map_of (create_homepage_wireframe x1 x2) ''instructions'' = Some (JString (create_homepage_wireframe_instructions x1 (arg_or_default ''standard'' x2)))"
  "map_of (create_homepage_wireframe x1 x2) ''messaging_framework'' = Some (JString x1)"
  "map_of (create_homepage_wireframe x1 x2) ''style'' = Some (JString (arg_or_default ''standard'' x2))"
  by (simp_all add: create_homepage_wireframe_def)

lemma create_homepage_wireframe_instructions_of: "instructions_of (create_homepage_wireframe x1 x2) = create_homepage_wireframe_instructions x1 (arg_or_default ''standard'' x2)"
  by (simp add: instructions_of_def create_homepage_wireframe_members)

lemma create_homepage_wireframe_has_task: "has_task_and_instructions (create_homepage_wireframe x1 x2)"
  by (simp add: has_task_and_instructions_def create_homepage_wireframe_members create_homepage_wireframe_instructions_nonempty)

lemma generate_differentiation_statements_instructions_nonempty: "generate_differentiation_statements_instructions pr y1 y2 y3 y4 \<noteq> []"
  by (simp add: generate_differentiation_statements_instructions_def)

lemma generate_differentiation_statements_members:
  "map_of (generate_differentiation_statements pr x1 x2 x3 x4) ''task'' = Some (JString ''generate_differentiation'')"
  "map_of (generate_differentiation_statements pr x1 x2 x3 x4) ''instructions'' = Some (JString (generate_differentiation_statements_instructions pr x1 x2 x3 x4))"
  "map_of (generate_differentiation_statements pr x1 x2 x3 x4) ''product_description'' = Some (JString x1)"
  "map_of (generate_differentiation_statements pr x1 x2 x3 x4) ''competitive_alternative'' = Some (JString x2)"
  "map_of (generate_differentiation_statements pr x1 x2 x3 x4) ''unique_capabilities'' = Some (json_list x3)"
  "map_of (generate_differentiation_statements pr x1 x2 x3 x4) ''target_audience'' = Some (json_str_opt x4)"
  by (simp_all add: generate_differentiation_statements_def)

lemma generate_differentiation_statements_instructions_of: "instructions_of (generate_differentiation_statements pr x1 x2 x3 x4) = generate_differentiation_statements_instructions pr x1 x2 x3 x4"
  by (simp add: instructions_of_def generate_differentiation_statements_members)

lemma generate_differentiation_statements_has_task: "has_task_and_instructions (generate_differentiation_statements pr x1 x2 x3 x4)"
  by (simp add: has_task_and_instructions_def generate_differentiation_statements_members generate_differentiation_statements_instructions_nonempty)

lemma sublist_here: "sublist x (x @ r)"
  by simp

lemma sublist_later: "sublist x r \<Longrightarrow> sublist x (p @ r)"
proof -
  assume "sublist x r"
  then obtain a b where "r = a @ x @ b"
    by (auto simp: sublist_def)
  then have "p @ r = (p @ a) @ x @ b"
    by simp
  then show ?thesis
    unfolding sublist_def by blast
qed

lemma sublist_py_or: "sublist v (py_or (Some v) d)"
  by (cases "v = []") simp_all

lemma sublist_str_truthy:
  "sublist v (if str_truthy (Some v) then p @ format_str (Some v) else e)"
  by (cases "v = []") simp_all

lemma sublist_list_truthy:
  "sublist (py_str_list pr (w # ws))
     (if list_truthy (Some (w # ws)) then p @ format_list pr (Some (w # ws)) else e)"
  by simp

lemma generate_rewrite_has_persona:
  "sublist (py_or p ''Not specified'') (generate_rewrite_instructions a i p c)"
  unfolding generate_rewrite_instructions_def
  by (rule sublist_here | rule sublist_later | rule sublist_order.order_refl)+

lemma generate_rewrite_has_alternative:
  "sublist (py_or c ''Not specified'') (generate_rewrite_instructions a i p c)"
  unfolding generate_rewrite_instructions_def
  by (rule sublist_here | rule sublist_later | rule sublist_order.order_refl)+

lemma fetch_homepage_has_mode:
  "sublist (m)
     (fetch_homepage_instructions u m)"
  unfolding fetch_homepage_instructions_def
  by (rule sublist_here | rule sublist_later | rule sublist_order.order_refl)+

lemma fetch_competitor_homepage_has_url:
  "sublist (if str_truthy y then ''Compare against your site: '' @ format_str y else [])
     (fetch_competitor_homepage_instructions u y)"
  unfolding fetch_competitor_homepage_instructions_def
  by (rule sublist_here | rule sublist_later | rule sublist_order.order_refl)+

lemma analyze_landing_page_has_context:
  "sublist (if str_truthy x then ''Campaign context: '' @ format_str x else [])
     (analyze_landing_page_instructions u x)"
  unfolding analyze_landing_page_instructions_def
  by (rule sublist_here | rule sublist_later | rule sublist_order.order_refl)+

lemma create_positioning_canvas_has_target:
  "sublist (if str_truthy t then ''Target: '' @ format_str t else [])
     (create_positioning_canvas_instructions pr d t k u)"
  unfolding create_positioning_canvas_instructions_def
  by (rule sublist_here | rule sublist_later | rule sublist_order.order_refl)+

lemma create_positioning_canvas_has_competitors:
  "sublist (if list_truthy k then ''Competitors: '' @ format_list pr k else [])
     (create_positioning_canvas_instructions pr d t k u)"
  unfolding create_positioning_canvas_instructions_def
  by (rule sublist_here | rule sublist_later | rule sublist_order.order_refl)+

lemma create_positioning_canvas_has_capabilities:
  "sublist (if list_truthy u then ''Unique capabilities: '' @ format_list pr u else [])
     (create_positioning_canvas_instructions pr d t k u)"
  unfolding create_positioning_canvas_instructions_def
  by (rule sublist_here | rule sublist_later | rule sublist_order.order_refl)+

lemma create_messaging_framework_has_primary:
  "sublist (if str_truthy p then ''### Primary Persona: '' @ format_str p
       else ''### Primary Persona'')
     (create_messaging_framework_instructions pr a p s)"
  unfolding create_messaging_framework_instructions_def
  by (rule sublist_here | rule sublist_later | rule sublist_order.order_refl)+

lemma create_messaging_framework_has_secondary:
  "sublist (if list_truthy s then ''### Secondary Personas: '' @ format_list pr s else [])
     (create_messaging_framework_instructions pr a p s)"
  unfolding create_messaging_framework_instructions_def
  by (rule sublist_here | rule sublist_later | rule sublist_order.order_refl)+

lemma create_homepage_wireframe_has_style:
  "sublist (s)
     (create_homepage_wireframe_instructions f s)"
  unfolding create_homepage_wireframe_instructions_def
  by (rule sublist_here | rule sublist_later | rule sublist_order.order_refl)+

lemma generate_differentiation_statements_has_audience:
  "sublist (if str_truthy t then ''Audience: '' @ format_str t else [])
     (generate_differentiation_statements_instructions pr d a u t)"
  unfolding generate_differentiation_statements_instructions_def
  by (rule sublist_here | rule sublist_later | rule sublist_order.order_refl)+


lemma generate_rewrite_keys:
  "map fst (generate_rewrite a i p c) = [''task'', ''instructions'', ''original_copy'', ''issue_type'']"
  by (simp add: generate_rewrite_def)

lemma rewrite_instructions_keys: "map fst rewrite_instructions = ISSUE_TYPES"
  by (simp add: rewrite_instructions_def ISSUE_TYPES_def)

lemma dict_get_fallback: "i \<notin> set ISSUE_TYPES \<Longrightarrow> dict_get rewrite_instructions i d = d"
proof -
  assume "i \<notin> set ISSUE_TYPES"
  then have "i \<notin> fst ` set rewrite_instructions"
    using rewrite_instructions_keys by (metis set_map)
  then have "map_of rewrite_instructions i = None"
    by (simp add: map_of_eq_None_iff)
  then show ?thesis
    by (simp add: dict_get_def)
qed

lemma generate_rewrite_text:
  "generate_rewrite_instructions c i p a =
     rewrite_before_fix c i
     @ dict_get rewrite_instructions i ''Improve clarity and specificity''
     @ rewrite_after_fix p a"
  by (simp add: generate_rewrite_instructions_def rewrite_before_fix_def rewrite_after_fix_def)

lemma invoke_generate_rewrite:
  "invoke pr (Call_generate_rewrite c i p a) =
     (if i \<in> set ISSUE_TYPES then Inr (generate_rewrite c i p a)
      else Inl [(''issue_type'', literal_error)])"
  by (simp add: invoke_def validated_def check_literal_def)

lemma ISSUE_TYPES_set:
  "set ISSUE_TYPES =
     {''unclear_headline'', ''jargon_buzzwords'', ''feature_dump'', ''no_specificity'',
            ''clever_over_clear'', ''weak_cta'', ''generic_value_prop'', ''no_competitive_frame''}"
  by (simp add: ISSUE_TYPES_def)

text \<open>
  Claim C5, as stated, fails: the tool refuses an \<^verbatim>\<open>issue_type\<close> outside the eight
  enumerated values. Invoked with \<^verbatim>\<open>typo\<close>, it raises the validation error of its
  argument schema and returns no envelope.
\<close>

theorem generate_rewrite_refuses_unknown_issue:
  "invoke escape_all
     (Call_generate_rewrite ''Synergize your workflows'' ''typo'' None None) =
     Inl [(''issue_type'', literal_error)]"
  by (simp add: invoke_generate_rewrite ISSUE_TYPES_def)

text \<open>
  Claim C5, amended. Invoking \<^verbatim>\<open>generate_rewrite\<close> fails with a validation error
  exactly when \<^verbatim>\<open>issue_type\<close> is outside the eight enumerated values. For each of the
  eight it returns the envelope the function builds, and the instruction text is the
  template with that issue's own fix approach in the fix-approach line, and nothing else
  there. The fallback \<^verbatim>\<open>Improve clarity and specificity\<close> is what the function writes
  in that line for a value outside the eight, which it receives only when it is called
  without the schema.
\<close>

theorem generate_rewrite_fix_approach:
  "isl (invoke pr (Call_generate_rewrite c i p a)) =
     (i \<notin> {''unclear_headline'', ''jargon_buzzwords'', ''feature_dump'', ''no_specificity'',
            ''clever_over_clear'', ''weak_cta'', ''generic_value_prop'', ''no_competitive_frame''})
   \<and> (i \<notin> {''unclear_headline'', ''jargon_buzzwords'', ''feature_dump'', ''no_specificity'',
            ''clever_over_clear'', ''weak_cta'', ''generic_value_prop'', ''no_competitive_frame''} \<longrightarrow>
        instructions_of (generate_rewrite c i p a) =
          rewrite_before_fix c i @ ''Improve clarity and specificity'' @ rewrite_after_fix p a)
   \<and> invoke pr (Call_generate_rewrite c ''unclear_headline'' p a) = Inr (generate_rewrite c ''unclear_headline'' p a)
   \<and> instructions_of (generate_rewrite c ''unclear_headline'' p a) =
       rewrite_before_fix c ''unclear_headline''
       @ ''Rewrite to clearly state WHAT + WHO. No cleverness.''
       @ rewrite_after_fix p a
   \<and> invoke pr (Call_generate_rewrite c ''jargon_buzzwords'' p a) = Inr (generate_rewrite c ''jargon_buzzwords'' p a)
   \<and> instructions_of (generate_rewrite c ''jargon_buzzwords'' p a) =
       rewrite_before_fix c ''jargon_buzzwords''
       @ ''Replace all jargon with customer language. Be specific.''
       @ rewrite_after_fix p a
   \<and> invoke pr (Call_generate_rewrite c ''feature_dump'' p a) = Inr (generate_rewrite c ''feature_dump'' p a)
   \<and> instructions_of (generate_rewrite c ''feature_dump'' p a) =
       rewrite_before_fix c ''feature_dump''
       @ ''Apply 'So what?' to each feature until you reach benefit.''
       @ rewrite_after_fix p a
   \<and> invoke pr (Call_generate_rewrite c ''no_specificity'' p a) = Inr (generate_rewrite c ''no_specificity'' p a)
   \<and> instructions_of (generate_rewrite c ''no_specificity'' p a) =
       rewrite_before_fix c ''no_specificity''
       @ ''Add numbers, timeframes, concrete outcomes.''
       @ rewrite_after_fix p a
   \<and> invoke pr (Call_generate_rewrite c ''clever_over_clear'' p a) = Inr (generate_rewrite c ''clever_over_clear'' p a)
   \<and> instructions_of (generate_rewrite c ''clever_over_clear'' p a) =
       rewrite_before_fix c ''clever_over_clear''
       @ ''Make it boring and clear. State exactly what it does.''
       @ rewrite_after_fix p a
   \<and> invoke pr (Call_generate_rewrite c ''weak_cta'' p a) = Inr (generate_rewrite c ''weak_cta'' p a)
   \<and> instructions_of (generate_rewrite c ''weak_cta'' p a) =
       rewrite_before_fix c ''weak_cta''
       @ ''Make CTA benefit-oriented. What happens when they click?''
       @ rewrite_after_fix p a
   \<and> invoke pr (Call_generate_rewrite c ''generic_value_prop'' p a) = Inr (generate_rewrite c ''generic_value_prop'' p a)
   \<and> instructions_of (generate_rewrite c ''generic_value_prop'' p a) =
       rewrite_before_fix c ''generic_value_prop''
       @ ''Add problem + specific solution + for whom.''
       @ rewrite_after_fix p a
   \<and> invoke pr (Call_generate_rewrite c ''no_competitive_frame'' p a) = Inr (generate_rewrite c ''no_competitive_frame'' p a)
   \<and> instructions_of (generate_rewrite c ''no_competitive_frame'' p a) =
       rewrite_before_fix c ''no_competitive_frame''
       @ ''Add 'Unlike X' or 'Instead of Y' framing.''
       @ rewrite_after_fix p a"
proof -
  have whole: "instructions_of (generate_rewrite c j p a) =
      rewrite_before_fix c j
      @ dict_get rewrite_instructions j ''Improve clarity and specificity''
      @ rewrite_after_fix p a" for j
    by (simp only: generate_rewrite_instructions_of generate_rewrite_text)
  have accepted: "j \<in> set ISSUE_TYPES \<Longrightarrow>
      invoke pr (Call_generate_rewrite c j p a) = Inr (generate_rewrite c j p a)" for j
    by (simp add: invoke_generate_rewrite)
  have refused: "isl (invoke pr (Call_generate_rewrite c i p a)) = (i \<notin> set ISSUE_TYPES)"
    by (simp add: invoke_generate_rewrite)
  have fallback: "i \<notin> set ISSUE_TYPES \<longrightarrow>
        instructions_of (generate_rewrite c i p a) =
          rewrite_before_fix c i @ ''Improve clarity and specificity'' @ rewrite_after_fix p a"
  proof
    assume outside: "i \<notin> set ISSUE_TYPES"
    show "instructions_of (generate_rewrite c i p a) =
          rewrite_before_fix c i @ ''Improve clarity and specificity'' @ rewrite_after_fix p a"
      using whole [of i] by (simp add: dict_get_fallback [OF outside])
  qed
  show ?thesis
    using refused fallback
      whole [of "''unclear_headline''"] accepted [of "''unclear_headline''"]
      whole [of "''jargon_buzzwords''"] accepted [of "''jargon_buzzwords''"]
      whole [of "''feature_dump''"] accepted [of "''feature_dump''"]
      whole [of "''no_specificity''"] accepted [of "''no_specificity''"]
      whole [of "''clever_over_clear''"] accepted [of "''clever_over_clear''"]
      whole [of "''weak_cta''"] accepted [of "''weak_cta''"]
      whole [of "''generic_value_prop''"] accepted [of "''generic_value_prop''"]
      whole [of "''no_competitive_frame''"] accepted [of "''no_competitive_frame''"]
    unfolding ISSUE_TYPES_set
    by (simp add: dict_get_def rewrite_instructions_def)
qed

text \<open>The fallback of the function at an \<^verbatim>\<open>issue_type\<close> that is not enumerated.\<close>

theorem generate_rewrite_fix_approach_witness:
  "''typo'' \<notin> {''unclear_headline'', ''jargon_buzzwords'', ''feature_dump'', ''no_specificity'',
            ''clever_over_clear'', ''weak_cta'', ''generic_value_prop'', ''no_competitive_frame''}
   \<and> instructions_of (generate_rewrite ''Synergize your workflows'' ''typo'' None None) =
       rewrite_before_fix ''Synergize your workflows'' ''typo''
       @ ''Improve clarity and specificity''
       @ rewrite_after_fix None None"
  using generate_rewrite_fix_approach
    [of escape_all "''Synergize your workflows''" "''typo''" None None]
  by simp

text \<open>
  Claim C9. The five-second test, called with \<^verbatim>\<open><h1>Acme</h1>\<close> as the asset and
  \<^verbatim>\<open>homepage\<close> as its type, returns an object whose \<^verbatim>\<open>asset_type\<close> is
  \<^verbatim>\<open>homepage\<close> and whose instructions hold the four questions: what do they do, who is
  it for, what makes it different, what to do next.
\<close>

theorem five_second_test_scenario:
  "map_of (run_five_second_test ''<h1>Acme</h1>'' (Some ''homepage'')) ''asset_type'' =
     Some (JString ''homepage'')
   \<and> sublist ''**What do they do?**''
        (instructions_of (run_five_second_test ''<h1>Acme</h1>'' (Some ''homepage'')))
   \<and> sublist ''**Who is it for?**''
        (instructions_of (run_five_second_test ''<h1>Acme</h1>'' (Some ''homepage'')))
   \<and> sublist ''**What makes it different?**''
        (instructions_of (run_five_second_test ''<h1>Acme</h1>'' (Some ''homepage'')))
   \<and> sublist ''**What to do next?**''
        (instructions_of (run_five_second_test ''<h1>Acme</h1>'' (Some ''homepage'')))"
proof -
  have q1: "sublist ''**What do they do?**'' run_five_second_test_instructions"
    by code_simp
  have q2: "sublist ''**Who is it for?**'' run_five_second_test_instructions"
    by code_simp
  have q3: "sublist ''**What makes it different?**'' run_five_second_test_instructions"
    by code_simp
  have q4: "sublist ''**What to do next?**'' run_five_second_test_instructions"
    by code_simp
  show ?thesis
    unfolding run_five_second_test_instructions_of
    using q1 q2 q3 q4 by (simp add: run_five_second_test_members arg_or_default_def)
qed

text \<open>
  Claim C1, as stated, fails for \<^verbatim>\<open>generate_rewrite\<close>: called with a target persona
  and a competitive alternative, it returns an object whose keys are \<^verbatim>\<open>task\<close>,
  \<^verbatim>\<open>instructions\<close>, \<^verbatim>\<open>original_copy\<close> and \<^verbatim>\<open>issue_type\<close>; the two optional
  parameters are not keys of it.
\<close>

theorem generate_rewrite_omits_optional_echo:
  "map fst (generate_rewrite ''Synergize your workflows'' ''jargon_buzzwords''
              (Some ''CFO'') (Some ''spreadsheets'')) =
     [''task'', ''instructions'', ''original_copy'', ''issue_type'']
   \<and> map_of (generate_rewrite ''Synergize your workflows'' ''jargon_buzzwords''
              (Some ''CFO'') (Some ''spreadsheets'')) ''target_persona'' = None
   \<and> map_of (generate_rewrite ''Synergize your workflows'' ''jargon_buzzwords''
              (Some ''CFO'') (Some ''spreadsheets'')) ''competitive_alternative'' = None"
  by (simp add: generate_rewrite_def)

text \<open>
  Claim C1, amended. Every template operation, for any arguments, returns an object with
  a non-empty string under \<^verbatim>\<open>task\<close> and a non-empty string under
  \<^verbatim>\<open>instructions\<close>. Sixteen of the seventeen operations return every parameter under
  its own name (a parameter left out appears with its default). \<^verbatim>\<open>generate_rewrite\<close>
  returns \<^verbatim>\<open>original_copy\<close> and \<^verbatim>\<open>issue_type\<close> under their names and has no other
  key; its \<^verbatim>\<open>target_persona\<close> and \<^verbatim>\<open>competitive_alternative\<close> are written into the
  instruction text (\<^verbatim>\<open>Not specified\<close> when absent or empty).
\<close>

theorem envelope_shape:
  "has_task_and_instructions (run_five_second_test a1 a2)
   \<and> echoes (run_five_second_test a1 a2)
         [(''asset_content'', JString a1),
          (''asset_type'', JString (arg_or_default ''homepage'' a2))]
   \<and> has_task_and_instructions (analyze_positioning b1 b2)
   \<and> echoes (analyze_positioning b1 b2)
         [(''asset_content'', JString b1),
          (''company_context'', json_str_opt b2)]
   \<and> has_task_and_instructions (analyze_messaging c1 c2)
   \<and> echoes (analyze_messaging c1 c2)
         [(''asset_content'', JString c1),
          (''target_persona'', json_str_opt c2)]
   \<and> has_task_and_instructions (analyze_homepage_structure d1 d2)
   \<and> echoes (analyze_homepage_structure d1 d2)
         [(''asset_content'', JString d1),
          (''include_screenshots'', JBool (arg_or_default False d2))]
   \<and> has_task_and_instructions (detect_anti_patterns e1 e2)
   \<and> echoes (detect_anti_patterns e1 e2)
         [(''asset_content'', JString e1),
          (''asset_type'', JString (arg_or_default ''all'' e2))]
   \<and> has_task_and_instructions (generate_rewrite f1 f2 f3 f4)
   \<and> echoes (generate_rewrite f1 f2 f3 f4)
         [(''original_copy'', JString f1),
          (''issue_type'', JString f2)]
   \<and> has_task_and_instructions (build_competitive_frame g1 g2 g3)
   \<and> echoes (build_competitive_frame g1 g2 g3)
         [(''product_description'', JString g1),
          (''known_competitors'', json_list_opt g2),
          (''current_positioning'', json_str_opt g3)]
   \<and> has_task_and_instructions (analyze_icp h1 h2)
   \<and> echoes (analyze_icp h1 h2)
         [(''asset_content'', JString h1),
          (''additional_context'', json_str_opt h2)]
   \<and> has_task_and_instructions (run_complete_pmm_audit i1 i2 i3 i4)
   \<and> echoes (run_complete_pmm_audit i1 i2 i3 i4)
         [(''asset_content'', JString i1),
          (''asset_type'', JString (arg_or_default ''homepage'' i2)),
          (''asset_url'', json_str_opt i3),
          (''company_context'', json_str_opt i4)]
   \<and> has_task_and_instructions (fetch_homepage j1 j2)
   \<and> echoes (fetch_homepage j1 j2)
         [(''url'', JString j1),
          (''extract_mode'', JString (arg_or_default ''full'' j2))]
   \<and> has_task_and_instructions (fetch_competitor_homepage k1 k2)
   \<and> echoes (fetch_competitor_homepage k1 k2)
         [(''competitor_url'', JString k1),
          (''your_url'', json_str_opt k2)]
   \<and> has_task_and_instructions (analyze_landing_page l1 l2)
   \<and> echoes (analyze_landing_page l1 l2)
         [(''url'', JString l1),
          (''campaign_context'', json_str_opt l2)]
   \<and> has_task_and_instructions (scrape_social_proof m1)
   \<and> echoes (scrape_social_proof m1)
         [(''url'', JString m1)]
   \<and> has_task_and_instructions (create_positioning_canvas pr n1 n2 n3 n4)
   \<and> echoes (create_positioning_canvas pr n1 n2 n3 n4)
         [(''product_description'', JString n1),
          (''target_audience'', json_str_opt n2),
          (''known_competitors'', json_list_opt n3),
          (''unique_capabilities'', json_list_opt n4)]
   \<and> has_task_and_instructions (create_messaging_framework pr o1 o2 o3)
   \<and> echoes (create_messaging_framework pr o1 o2 o3)
         [(''positioning_canvas'', JString o1),
          (''primary_persona'', json_str_opt o2),
          (''secondary_personas'', json_list_opt o3)]
   \<and> has_task_and_instructions (create_homepage_wireframe p1 p2)
   \<and> echoes (create_homepage_wireframe p1 p2)
         [(''messaging_framework'', JString p1),
          (''style'', JString (arg_or_default ''standard'' p2))]
   \<and> has_task_and_instructions (generate_differentiation_statements pr q1 q2 q3 q4)
   \<and> echoes (generate_differentiation_statements pr q1 q2 q3 q4)
         [(''product_description'', JString q1),
          (''competitive_alternative'', JString q2),
          (''unique_capabilities'', json_list q3),
          (''target_audience'', json_str_opt q4)]
   \<and> map fst (generate_rewrite f1 f2 f3 f4) =
       [''task'', ''instructions'', ''original_copy'', ''issue_type'']
   \<and> sublist (py_or f3 ''Not specified'') (instructions_of (generate_rewrite f1 f2 f3 f4))
   \<and> sublist (py_or f4 ''Not specified'') (instructions_of (generate_rewrite f1 f2 f3 f4))"
  by (simp add: run_five_second_test_has_task run_five_second_test_members analyze_positioning_has_task analyze_positioning_members analyze_messaging_has_task analyze_messaging_members analyze_homepage_structure_has_task analyze_homepage_structure_members detect_anti_patterns_has_task detect_anti_patterns_members generate_rewrite_has_task generate_rewrite_members build_competitive_frame_has_task build_competitive_frame_members analyze_icp_has_task analyze_icp_members run_complete_pmm_audit_has_task run_complete_pmm_audit_members fetch_homepage_has_task fetch_homepage_members fetch_competitor_homepage_has_task fetch_competitor_homepage_members analyze_landing_page_has_task analyze_landing_page_members scrape_social_proof_has_task scrape_social_proof_members create_positioning_canvas_has_task create_positioning_canvas_members create_messaging_framework_has_task create_messaging_framework_members create_homepage_wireframe_has_task create_homepage_wireframe_members generate_differentiation_statements_has_task generate_differentiation_statements_members generate_rewrite_keys generate_rewrite_instructions_of generate_rewrite_has_persona generate_rewrite_has_alternative)

lemma analyze_positioning_no_dollar: "CHR ''$'' \<notin> set analyze_positioning_instructions"
  by (simp add: analyze_positioning_instructions_def)

text \<open>
  Claim C3, as stated, fails: \<^verbatim>\<open>analyze_positioning\<close> has a fixed instruction text, so
  a company context given to it does not occur in the instructions.
\<close>

theorem analyze_positioning_ignores_company_context:
  "\<not> sublist ''Acme, $2M ARR''
       (instructions_of (analyze_positioning ''<h1>Acme</h1>'' (Some ''Acme, $2M ARR'')))"
proof
  assume "sublist ''Acme, $2M ARR''
       (instructions_of (analyze_positioning ''<h1>Acme</h1>'' (Some ''Acme, $2M ARR'')))"
  then have "sublist ''Acme, $2M ARR'' analyze_positioning_instructions"
    by (simp only: analyze_positioning_instructions_of)
  then have "set ''Acme, $2M ARR'' \<subseteq> set analyze_positioning_instructions"
    by (rule set_mono_sublist)
  then have "CHR ''$'' \<in> set analyze_positioning_instructions"
    by simp
  then show False
    using analyze_positioning_no_dollar by simp
qed

text \<open>
  Claim C3, amended. Where the instruction template formats an optional parameter, a
  value given for it occurs verbatim in the instructions when it is a string, and as
  Python's rendering of the list (\<^verbatim>\<open>str\<close> of it, for any table \<open>pr\<close> of printable
  code points the interpreter has) when it is a list that is not empty: the target persona
  and competitive alternative of \<^verbatim>\<open>generate_rewrite\<close>, the extract mode of
  \<^verbatim>\<open>fetch_homepage\<close>, \<^verbatim>\<open>your_url\<close>, the campaign context, the target audience,
  known competitors and unique capabilities of the positioning canvas, the primary and
  secondary personas, the wireframe style, and the target audience of the
  differentiation statements. The evaluation operations other than
  \<^verbatim>\<open>generate_rewrite\<close> have a fixed instruction text: what is given for their optional
  parameters is returned under the parameter's name and nowhere in the instructions.
\<close>

theorem optional_parameters_in_instructions:
  "sublist v (instructions_of (generate_rewrite a1 a2 (Some v) a4))
   \<and> sublist v (instructions_of (generate_rewrite a1 a2 a3 (Some v)))
   \<and> sublist v (instructions_of (fetch_homepage b1 (Some v)))
   \<and> sublist v (instructions_of (fetch_competitor_homepage c1 (Some v)))
   \<and> sublist v (instructions_of (analyze_landing_page d1 (Some v)))
   \<and> sublist v (instructions_of (create_positioning_canvas pr e1 (Some v) e3 e4))
   \<and> sublist (py_str_list pr (w # ws))
        (instructions_of (create_positioning_canvas pr e1 e2 (Some (w # ws)) e4))
   \<and> sublist (py_str_list pr (w # ws))
        (instructions_of (create_positioning_canvas pr e1 e2 e3 (Some (w # ws))))
   \<and> sublist v (instructions_of (create_messaging_framework pr f1 (Some v) f3))
   \<and> sublist (py_str_list pr (w # ws))
        (instructions_of (create_messaging_framework pr f1 f2 (Some (w # ws))))
   \<and> sublist v (instructions_of (create_homepage_wireframe g1 (Some v)))
   \<and> sublist v (instructions_of (generate_differentiation_statements pr h1 h2 h3 (Some v)))
   \<and> instructions_of (run_five_second_test i1 i2) = run_five_second_test_instructions
   \<and> echoes (run_five_second_test i1 (Some v)) [(''asset_type'', JString v)]
   \<and> instructions_of (analyze_positioning j1 j2) = analyze_positioning_instructions
   \<and> echoes (analyze_positioning j1 (Some v)) [(''company_context'', JString v)]
   \<and> instructions_of (analyze_messaging k1 k2) = analyze_messaging_instructions
   \<and> echoes (analyze_messaging k1 (Some v)) [(''target_persona'', JString v)]
   \<and> instructions_of (analyze_homepage_structure l1 l2) = analyze_homepage_structure_instructions
   \<and> echoes (analyze_homepage_structure l1 (Some b)) [(''include_screenshots'', JBool b)]
   \<and> instructions_of (detect_anti_patterns m1 m2) = detect_anti_patterns_instructions
   \<and> echoes (detect_anti_patterns m1 (Some v)) [(''asset_type'', JString v)]
   \<and> instructions_of (build_competitive_frame n1 n2 n3) = build_competitive_frame_instructions
   \<and> echoes (build_competitive_frame n1 (Some ws) (Some v))
        [(''known_competitors'', JArray (map JString ws)), (''current_positioning'', JString v)]
   \<and> instructions_of (analyze_icp o1 o2) = analyze_icp_instructions
   \<and> echoes (analyze_icp o1 (Some v)) [(''additional_context'', JString v)]
   \<and> instructions_of (run_complete_pmm_audit p1 p2 p3 p4) = run_complete_pmm_audit_instructions
   \<and> echoes (run_complete_pmm_audit p1 (Some v) (Some v') (Some v''))
        [(''asset_type'', JString v), (''asset_url'', JString v'),
         (''company_context'', JString v'')]"
proof -
  note via = sublist_order.order_trans
  have r1: "sublist v (instructions_of (generate_rewrite a1 a2 (Some v) a4))"
    unfolding generate_rewrite_instructions_of
    by (rule via [OF sublist_py_or generate_rewrite_has_persona])
  have r2: "sublist v (instructions_of (generate_rewrite a1 a2 a3 (Some v)))"
    unfolding generate_rewrite_instructions_of
    by (rule via [OF sublist_py_or generate_rewrite_has_alternative])
  have r3: "sublist v (instructions_of (fetch_homepage b1 (Some v)))"
    unfolding fetch_homepage_instructions_of
    by (simp add: arg_or_default_def fetch_homepage_has_mode)
  have r4: "sublist v (instructions_of (fetch_competitor_homepage c1 (Some v)))"
    unfolding fetch_competitor_homepage_instructions_of
    by (rule via [OF sublist_str_truthy fetch_competitor_homepage_has_url])
  have r5: "sublist v (instructions_of (analyze_landing_page d1 (Some v)))"
    unfolding analyze_landing_page_instructions_of
    by (rule via [OF sublist_str_truthy analyze_landing_page_has_context])
  have r6: "sublist v (instructions_of (create_positioning_canvas pr e1 (Some v) e3 e4))"
    unfolding create_positioning_canvas_instructions_of
    by (rule via [OF sublist_str_truthy create_positioning_canvas_has_target])
  have r7: "sublist (py_str_list pr (w # ws))
        (instructions_of (create_positioning_canvas pr e1 e2 (Some (w # ws)) e4))"
    unfolding create_positioning_canvas_instructions_of
    by (rule via [OF sublist_list_truthy create_positioning_canvas_has_competitors])
  have r8: "sublist (py_str_list pr (w # ws))
        (instructions_of (create_positioning_canvas pr e1 e2 e3 (Some (w # ws))))"
    unfolding create_positioning_canvas_instructions_of
    by (rule via [OF sublist_list_truthy create_positioning_canvas_has_capabilities])
  have r9: "sublist v (instructions_of (create_messaging_framework pr f1 (Some v) f3))"
    unfolding create_messaging_framework_instructions_of
    by (rule via [OF sublist_str_truthy create_messaging_framework_has_primary])
  have r10: "sublist (py_str_list pr (w # ws))
        (instructions_of (create_messaging_framework pr f1 f2 (Some (w # ws))))"
    unfolding create_messaging_framework_instructions_of
    by (rule via [OF sublist_list_truthy create_messaging_framework_has_secondary])
  have r11: "sublist v (instructions_of (create_homepage_wireframe g1 (Some v)))"
    unfolding create_homepage_wireframe_instructions_of
    by (simp add: arg_or_default_def create_homepage_wireframe_has_style)
  have r12: "sublist v (instructions_of (generate_differentiation_statements pr h1 h2 h3 (Some v)))"
    unfolding generate_differentiation_statements_instructions_of
    by (rule via [OF sublist_str_truthy generate_differentiation_statements_has_audience])
  show ?thesis
    using r1 r2 r3 r4 r5 r6 r7 r8 r9 r10 r11 r12
    by (simp add: run_five_second_test_instructions_of run_five_second_test_members
        analyze_positioning_instructions_of analyze_positioning_members
        analyze_messaging_instructions_of analyze_messaging_members
        analyze_homepage_structure_instructions_of analyze_homepage_structure_members
        detect_anti_patterns_instructions_of detect_anti_patterns_members
        build_competitive_frame_instructions_of build_competitive_frame_members
        analyze_icp_instructions_of analyze_icp_members
        run_complete_pmm_audit_instructions_of run_complete_pmm_audit_members
        arg_or_default_def json_str_opt_def json_list_opt_def json_list_def)
qed

lemma create_pmm_agent_subagents:
  "subagents (create_pmm_agent e m mode um sa) =
     (if arg_or_default True sa then PMM_SUBAGENTS else [])"
  by (simp add: create_pmm_agent_def Let_def deep_agent_args.make_def)

text \<open>
  The tool list and the subagent list the factory selects are the same for the same
  mode, memory toggle and subagent toggle, whatever the environment variable and the
  model name are.
\<close>

lemma selection_independent_of_environment:
  "deep_agent_args.tools (create_pmm_agent e m mode um sa) =
     deep_agent_args.tools (create_pmm_agent e' m' mode um sa)
   \<and> subagents (create_pmm_agent e m mode um sa) =
       subagents (create_pmm_agent e' m' mode um sa)"
  by (simp add: create_pmm_agent_tools create_pmm_agent_subagents)

end
